theory Spec2Isabelle
  imports Main "HOL-Library.Multiset"
begin

section \<open>Federation objects and local rows\<close>

text \<open>
  The synchronisation of remote playlists (\<^verbatim>\<open>lib/activitypub/playlist.ts\<close>).
  A rejected promise or a thrown \<^verbatim>\<open>Error\<close> is a value \<open>Inl e\<close>; the local
  storage is a record passed through every call and returned together with the result,
  since what a call wrote before it threw stays written.
\<close>

datatype error =
  RequestError | TypeError | InvalidBody | HostMismatch | NoAudience
  | ResolutionError | DatabaseError | ImageError

datatype VideoPlaylistPrivacy = PUBLIC | UNLISTED | PRIVATE

text \<open>The fields of a fetched playlist object that the code reads. \<open>attributedTo\<close>,
  \<open>icon\<close> and \<open>to\<close> may be absent (\<^verbatim>\<open>undefined\<close>).\<close>

record PlaylistObject =
  po_id :: string
  po_name :: string
  po_content :: string
  po_uuid :: string
  po_published :: int
  po_updated :: int
  po_attributedTo :: "string list option"
  po_icon :: "string option"
  po_to :: "string list option"

text \<open>A fetched playlist element object. The position and the two timestamps are
  numbers that the JSON may lack (\<open>None\<close> is \<^verbatim>\<open>undefined\<close>); whether an object
  without a position is accepted is up to the validator.\<close>

record PlaylistElementObject =
  eo_id :: string
  eo_url :: string
  eo_position :: "int option"
  eo_startTimestamp :: "int option"
  eo_stopTimestamp :: "int option"

text \<open>The decoded JSON body of a response. A body that has not the shape of the
  object asked for fails its validator.\<close>

datatype body =
  PlaylistBody PlaylistObject
  | ElementBody PlaylistElementObject
  | OtherBody

text \<open>The attributes handed to \<^verbatim>\<open>VideoPlaylistModel.upsert\<close>.\<close>

record playlist_attributes =
  pa_name :: string
  pa_description :: string
  pa_privacy :: VideoPlaylistPrivacy
  pa_url :: string
  pa_uuid :: string
  pa_ownerAccountId :: nat
  pa_videoChannelId :: "nat option"
  pa_createdAt :: int
  pa_updatedAt :: int

text \<open>A stored playlist: its surrogate id, the attributes, and the time of the
  last refresh.\<close>

record VideoPlaylistModel =
  pl_id :: nat
  pl_attrs :: playlist_attributes
  pl_lastRefreshedAt :: int

text \<open>The attributes handed to \<^verbatim>\<open>VideoPlaylistElementModel.create\<close>.\<close>

record element_attributes =
  ea_position :: "int option"
  ea_url :: string
  ea_startTimestamp :: "int option"
  ea_stopTimestamp :: "int option"
  ea_videoPlaylistId :: nat
  ea_videoId :: nat

record VideoPlaylistElementModel =
  el_id :: nat
  el_attrs :: element_attributes

text \<open>Everything the pipeline writes: the two tables with their id sequences, the
  thumbnail files (name and source url), and the playlists for which
  \<^verbatim>\<open>generateThumbnailFromUrl\<close> was called.\<close>

record store =
  playlists :: "VideoPlaylistModel list"
  elements :: "VideoPlaylistElementModel list"
  nextPlaylistId :: nat
  nextElementId :: nat
  thumbnails :: "(string \<times> string) list"
  thumbnailCalls :: "nat list"

text \<open>
  The collaborators that are imported from other modules and the clock, as parameters:
  the HTTP client (it rejects on a network error and otherwise gives the status code
  and the body), the two structural validators, the origin check, the actor and video
  resolvers (the actor's channel id, the video's id), the collection crawler (the item
  urls it hands to its handler, concatenated), the image download, the constraints of
  the element table on an insertion (given the attributes already stored), and the
  refresh interval. \<open>mapOrder\<close> is the scheduling of \<^verbatim>\<open>Bluebird.map\<close>: for the
  list it is given, the order in which its mappers complete, a rearrangement of that
  list.
\<close>

record env =
  now :: int
  refreshInterval :: int
  doRequest :: "string \<Rightarrow> error + (nat \<times> body)"
  isPlaylistObjectValid :: "PlaylistObject \<Rightarrow> bool"
  isPlaylistElementObjectValid :: "PlaylistElementObject \<Rightarrow> bool"
  checkUrlsSameHost :: "string \<Rightarrow> string \<Rightarrow> bool"
  getOrCreateActorAndServerAndModel :: "string \<Rightarrow> error + nat option"
  getOrCreateVideoAndAccountAndChannel :: "string \<Rightarrow> error + nat"
  crawlCollectionPage :: "string \<Rightarrow> error + string list"
  downloadImage :: "string \<Rightarrow> string \<Rightarrow> bool"
  createAllowed :: "element_attributes list \<Rightarrow> element_attributes \<Rightarrow> bool"
  mapOrder :: "string list \<Rightarrow> string list"

text \<open>\<^verbatim>\<open>ACTIVITY_PUB.PUBLIC\<close>, the audience that makes a playlist public.\<close>

definition ACTIVITY_PUB_PUBLIC :: string where
  "ACTIVITY_PUB_PUBLIC = ''https://www.w3.org/ns/activitystreams#Public''"

section \<open>The model layer\<close>

text \<open>Modelled from the spec: \<^verbatim>\<open>VideoPlaylistModel.isOutdated\<close> is not in the
  sources. A playlist is stale once \<open>now - lastRefreshedAt\<close> exceeds the
  configured refresh interval.\<close>

definition isOutdated :: "env \<Rightarrow> VideoPlaylistModel \<Rightarrow> bool" where
  "isOutdated env p = (now env - pl_lastRefreshedAt p > refreshInterval env)"

text \<open>Modelled from the spec: \<^verbatim>\<open>VideoPlaylistModel.setAsRefreshed\<close> is not in the
  sources. It marks \<open>lastRefreshedAt = now\<close> on the instance and on its row
  without altering content.\<close>

definition setAsRefreshed ::
  "env \<Rightarrow> VideoPlaylistModel \<Rightarrow> store \<Rightarrow> VideoPlaylistModel \<times> store" where
  "setAsRefreshed env p s =
     (p\<lparr>pl_lastRefreshedAt := now env\<rparr>,
      s\<lparr>playlists :=
          map (\<lambda>r. if pl_id r = pl_id p then r\<lparr>pl_lastRefreshedAt := now env\<rparr> else r)
            (playlists s)\<rparr>)"

text \<open>Modelled from the spec: \<^verbatim>\<open>VideoPlaylistModel.destroy\<close> is not in the sources.
  It deletes the local playlist and its elements.\<close>

definition destroy :: "VideoPlaylistModel \<Rightarrow> store \<Rightarrow> store" where
  "destroy p s =
     s\<lparr>playlists := filter (\<lambda>r. pl_id r \<noteq> pl_id p) (playlists s),
       elements := filter (\<lambda>e. ea_videoPlaylistId (el_attrs e) \<noteq> pl_id p) (elements s)\<rparr>"

text \<open>Modelled from the spec: \<^verbatim>\<open>VideoPlaylistModel.upsert\<close> is not in the sources.
  The row is found by its external identifier: if none exists one is inserted with the
  given attributes (and stamped with the current time), if one exists the attributes
  are updated in place. The row is returned.\<close>

definition upsert ::
  "env \<Rightarrow> playlist_attributes \<Rightarrow> store \<Rightarrow> VideoPlaylistModel \<times> store" where
  "upsert env a s =
     (case find (\<lambda>r. pa_url (pl_attrs r) = pa_url a) (playlists s) of
        None \<Rightarrow>
          (let row = \<lparr>pl_id = nextPlaylistId s, pl_attrs = a, pl_lastRefreshedAt = now env\<rparr>
           in (row, s\<lparr>playlists := playlists s @ [row],
                      nextPlaylistId := Suc (nextPlaylistId s)\<rparr>))
      | Some r \<Rightarrow>
          (r\<lparr>pl_attrs := a\<rparr>,
           s\<lparr>playlists :=
               map (\<lambda>x. if pa_url (pl_attrs x) = pa_url a then x\<lparr>pl_attrs := a\<rparr> else x)
                 (playlists s)\<rparr>))"

text \<open>Modelled from the spec: \<^verbatim>\<open>VideoPlaylistModel.doesPlaylistExist\<close> is not in
  the sources. A playlist is known when a row has its url.\<close>

definition doesPlaylistExist :: "string \<Rightarrow> store \<Rightarrow> bool" where
  "doesPlaylistExist u s = (find (\<lambda>r. pa_url (pl_attrs r) = u) (playlists s) \<noteq> None)"

text \<open>Modelled from the spec: \<^verbatim>\<open>VideoPlaylistElementModel.deleteAllOf\<close> is not in
  the sources. It deletes every existing element of the playlist.\<close>

definition deleteAllOf :: "nat \<Rightarrow> store \<Rightarrow> store" where
  "deleteAllOf pid s =
     s\<lparr>elements := filter (\<lambda>e. ea_videoPlaylistId (el_attrs e) \<noteq> pid) (elements s)\<rparr>"

text \<open>\<^verbatim>\<open>VideoPlaylistElementModel.create\<close>: the insertion of one row with a fresh
  surrogate id, rejected when the table's constraints refuse the attributes.\<close>

definition create :: "env \<Rightarrow> element_attributes \<Rightarrow> store \<Rightarrow> error + store" where
  "create env a s =
     (if createAllowed env (map el_attrs (elements s)) a
      then Inr (s\<lparr>elements := elements s @ [\<lparr>el_id = nextElementId s, el_attrs = a\<rparr>],
                  nextElementId := Suc (nextElementId s)\<rparr>)
      else Inl DatabaseError)"

text \<open>\<^verbatim>\<open>sequelizeTypescript.transaction\<close>: the callback's writes are committed when
  it resolves and rolled back when it rejects.\<close>

definition transaction :: "(store \<Rightarrow> error + store) \<Rightarrow> store \<Rightarrow> (error + unit) \<times> store" where
  "transaction f s = (case f s of Inl e \<Rightarrow> (Inl e, s) | Inr s' \<Rightarrow> (Inr (), s'))"

section \<open>The playlist module\<close>

definition playlistObjectToDBAttributes ::
  "PlaylistObject \<Rightarrow> nat \<Rightarrow> string list option \<Rightarrow> error + playlist_attributes" where
  "playlistObjectToDBAttributes playlistObject byAccount to =
     (case to of
        None \<Rightarrow> Inl TypeError
      | Some t \<Rightarrow>
          Inr \<lparr>pa_name = po_name playlistObject,
               pa_description = po_content playlistObject,
               pa_privacy = (if ACTIVITY_PUB_PUBLIC \<in> set t then PUBLIC else UNLISTED),
               pa_url = po_id playlistObject,
               pa_uuid = po_uuid playlistObject,
               pa_ownerAccountId = byAccount,
               pa_videoChannelId = None,
               pa_createdAt = po_published playlistObject,
               pa_updatedAt = po_updated playlistObject\<rparr>)"

text \<open>\<^verbatim>\<open>x || null\<close> on an optional number: absent and \<open>0\<close> are falsy.\<close>

definition orNull :: "int option \<Rightarrow> int option" where
  "orNull x = (case x of None \<Rightarrow> None | Some n \<Rightarrow> (if n = 0 then None else Some n))"

definition playlistElementObjectToDBAttributes ::
  "PlaylistElementObject \<Rightarrow> VideoPlaylistModel \<Rightarrow> nat \<Rightarrow> element_attributes" where
  "playlistElementObjectToDBAttributes elementObject videoPlaylist video =
     \<lparr>ea_position = eo_position elementObject,
      ea_url = eo_id elementObject,
      ea_startTimestamp = orNull (eo_startTimestamp elementObject),
      ea_stopTimestamp = orNull (eo_stopTimestamp elementObject),
      ea_videoPlaylistId = pl_id videoPlaylist,
      ea_videoId = video\<rparr>"

text \<open>\<^verbatim>\<open>generateThumbnailFromUrl\<close>: reading \<^verbatim>\<open>icon.url\<close> of an absent icon
  throws; otherwise the image is downloaded under the playlist's thumbnail name.\<close>

definition getThumbnailName :: "VideoPlaylistModel \<Rightarrow> string" where
  "getThumbnailName p = pa_uuid (pl_attrs p) @ ''.jpg''"

definition generateThumbnailFromUrl ::
  "env \<Rightarrow> VideoPlaylistModel \<Rightarrow> string option \<Rightarrow> store \<Rightarrow> (error + unit) \<times> store" where
  "generateThumbnailFromUrl env playlist icon s =
     (let s1 = s\<lparr>thumbnailCalls := thumbnailCalls s @ [pl_id playlist]\<rparr>
      in case icon of
           None \<Rightarrow> (Inl TypeError, s1)
         | Some u \<Rightarrow>
             (if downloadImage env u (getThumbnailName playlist)
              then (Inr (), s1\<lparr>thumbnails := thumbnails s1 @ [(getThumbnailName playlist, u)]\<rparr>)
              else (Inl ImageError, s1)))"

text \<open>The body of the \<^verbatim>\<open>try\<close> in \<^verbatim>\<open>resetVideoPlaylistElements\<close> up to the
  resolution of the video: the element object and the video's id, or what was thrown.\<close>

definition fetchElement :: "env \<Rightarrow> string \<Rightarrow> error + (PlaylistElementObject \<times> nat)" where
  "fetchElement env elementUrl =
     (case doRequest env elementUrl of
        Inl e \<Rightarrow> Inl e
      | Inr (statusCode, b) \<Rightarrow>
          (case b of
             ElementBody eo \<Rightarrow>
               (if \<not> isPlaylistElementObjectValid env eo then Inl InvalidBody
                else if \<not> checkUrlsSameHost env (eo_id eo) elementUrl then Inl HostMismatch
                else (case getOrCreateVideoAndAccountAndChannel env (eo_url eo) of
                        Inl e \<Rightarrow> Inl e
                      | Inr video \<Rightarrow> Inr (eo, video)))
           | _ \<Rightarrow> Inl InvalidBody))"

text \<open>What the mappers push, for the urls in the order in which their mappers
  complete: a url whose \<^verbatim>\<open>try\<close> throws is logged and skipped.\<close>

fun resolved :: "env \<Rightarrow> string list \<Rightarrow> (PlaylistElementObject \<times> nat) list" where
  "resolved env [] = []"
| "resolved env (elementUrl # rest) =
     (case fetchElement env elementUrl of
        Inl e \<Rightarrow> resolved env rest
      | Inr r \<Rightarrow> r # resolved env rest)"

text \<open>The array \<^verbatim>\<open>elementsToCreate\<close> after the \<^verbatim>\<open>Bluebird.map\<close>: each mapper
  pushes after its awaits, so the array is in the order of completion.\<close>

definition elementsToCreate ::
  "env \<Rightarrow> string list \<Rightarrow> VideoPlaylistModel \<Rightarrow> element_attributes list" where
  "elementsToCreate env elementUrls playlist =
     map (\<lambda>(eo, video). playlistElementObjectToDBAttributes eo playlist video)
       (resolved env (mapOrder env elementUrls))"

text \<open>The \<^verbatim>\<open>for\<close> loop of the transaction: the first rejected insertion ends it.\<close>

fun createAll :: "env \<Rightarrow> element_attributes list \<Rightarrow> store \<Rightarrow> error + store" where
  "createAll env [] s = Inr s"
| "createAll env (element # rest) s =
     (case create env element s of
        Inl e \<Rightarrow> Inl e
      | Inr s' \<Rightarrow> createAll env rest s')"

definition resetVideoPlaylistElements ::
  "env \<Rightarrow> string list \<Rightarrow> VideoPlaylistModel \<Rightarrow> store \<Rightarrow> (error + unit) \<times> store" where
  "resetVideoPlaylistElements env elementUrls playlist s =
     transaction
       (\<lambda>t. createAll env (elementsToCreate env elementUrls playlist)
              (deleteAllOf (pl_id playlist) t)) s"

definition fetchRemoteVideoPlaylist ::
  "env \<Rightarrow> string \<Rightarrow> error + (nat \<times> PlaylistObject option)" where
  "fetchRemoteVideoPlaylist env playlistUrl =
     (case doRequest env playlistUrl of
        Inl e \<Rightarrow> Inl e
      | Inr (statusCode, b) \<Rightarrow>
          (case b of
             PlaylistBody po \<Rightarrow>
               (if \<not> isPlaylistObjectValid env po
                   \<or> \<not> checkUrlsSameHost env (po_id po) playlistUrl
                then Inr (statusCode, None)
                else Inr (statusCode, Some po))
           | _ \<Rightarrow> Inr (statusCode, None)))"

text \<open>The channel of the playlist: set when exactly one actor is attributed and it
  has a video channel; the resolution of the actor may throw.\<close>

definition attributeChannel ::
  "env \<Rightarrow> PlaylistObject \<Rightarrow> playlist_attributes \<Rightarrow> error + playlist_attributes" where
  "attributeChannel env playlistObject playlistAttributes =
     (case po_attributedTo playlistObject of
        Some [actorUrl] \<Rightarrow>
          (case getOrCreateActorAndServerAndModel env actorUrl of
             Inl e \<Rightarrow> Inl e
           | Inr (Some channel) \<Rightarrow> Inr (playlistAttributes\<lparr>pa_videoChannelId := Some channel\<rparr>)
           | Inr None \<Rightarrow> Inr playlistAttributes)
      | _ \<Rightarrow> Inr playlistAttributes)"

text \<open>The thumbnail step: skipped for an empty item list; what the generation
  throws is caught and logged.\<close>

definition thumbnailStep ::
  "env \<Rightarrow> VideoPlaylistModel \<Rightarrow> PlaylistObject \<Rightarrow> string list \<Rightarrow> store \<Rightarrow> store" where
  "thumbnailStep env playlist playlistObject accItems s =
     (if accItems \<noteq> []
      then snd (generateThumbnailFromUrl env playlist (po_icon playlistObject) s)
      else s)"

definition createOrUpdateVideoPlaylist ::
  "env \<Rightarrow> PlaylistObject \<Rightarrow> nat \<Rightarrow> string list option \<Rightarrow> store \<Rightarrow> (error + unit) \<times> store" where
  "createOrUpdateVideoPlaylist env playlistObject byAccount to s =
     (case playlistObjectToDBAttributes playlistObject byAccount to of
        Inl e \<Rightarrow> (Inl e, s)
      | Inr attrs0 \<Rightarrow>
          (case attributeChannel env playlistObject attrs0 of
             Inl e \<Rightarrow> (Inl e, s)
           | Inr playlistAttributes \<Rightarrow>
               (case upsert env playlistAttributes s of
                  (playlist, s1) \<Rightarrow>
                    (case crawlCollectionPage env (po_id playlistObject) of
                       Inl e \<Rightarrow> (Inl e, s1)
                     | Inr accItems \<Rightarrow>
                         resetVideoPlaylistElements env accItems playlist
                           (thumbnailStep env playlist playlistObject accItems s1)))))"

text \<open>The body of the \<^verbatim>\<open>try\<close> in \<^verbatim>\<open>refreshVideoPlaylistIfNeeded\<close>: what it
  returns (\<open>None\<close> is \<^verbatim>\<open>undefined\<close>) or what it throws, and the store it leaves.\<close>

definition refreshAttempt ::
  "env \<Rightarrow> VideoPlaylistModel \<Rightarrow> store \<Rightarrow> (error + VideoPlaylistModel option) \<times> store" where
  "refreshAttempt env videoPlaylist s =
     (case fetchRemoteVideoPlaylist env (pa_url (pl_attrs videoPlaylist)) of
        Inl e \<Rightarrow> (Inl e, s)
      | Inr (statusCode, playlistObject) \<Rightarrow>
          (if statusCode = 404 then (Inr None, destroy videoPlaylist s)
           else (case playlistObject of
                   None \<Rightarrow>
                     (case setAsRefreshed env videoPlaylist s of
                        (p, s') \<Rightarrow> (Inr (Some p), s'))
                 | Some po \<Rightarrow>
                     (case createOrUpdateVideoPlaylist env po
                             (pa_ownerAccountId (pl_attrs videoPlaylist)) (po_to po) s of
                        (Inl e, s') \<Rightarrow> (Inl e, s')
                      | (Inr u, s') \<Rightarrow> (Inr (Some videoPlaylist), s')))))"

definition refreshVideoPlaylistIfNeeded ::
  "env \<Rightarrow> VideoPlaylistModel \<Rightarrow> store \<Rightarrow> VideoPlaylistModel option \<times> store" where
  "refreshVideoPlaylistIfNeeded env videoPlaylist s =
     (if \<not> isOutdated env videoPlaylist then (Some videoPlaylist, s)
      else (case refreshAttempt env videoPlaylist s of
              (Inr r, s') \<Rightarrow> (r, s')
            | (Inl err, s') \<Rightarrow>
                (case setAsRefreshed env videoPlaylist s' of
                   (p, s'') \<Rightarrow> (Some p, s''))))"

text \<open>One url of \<^verbatim>\<open>createAccountPlaylists\<close>: the body of the \<^verbatim>\<open>try\<close>.\<close>

definition createAccountPlaylist ::
  "env \<Rightarrow> string \<Rightarrow> nat \<Rightarrow> store \<Rightarrow> (error + unit) \<times> store" where
  "createAccountPlaylist env playlistUrl account s =
     (if doesPlaylistExist playlistUrl s then (Inr (), s)
      else (case doRequest env playlistUrl of
              Inl e \<Rightarrow> (Inl e, s)
            | Inr (statusCode, b) \<Rightarrow>
                (case b of
                   PlaylistBody po \<Rightarrow>
                     (if \<not> isPlaylistObjectValid env po then (Inl InvalidBody, s)
                      else (case po_to po of
                              None \<Rightarrow> (Inl NoAudience, s)
                            | Some t \<Rightarrow> createOrUpdateVideoPlaylist env po account (Some t) s))
                 | _ \<Rightarrow> (Inl InvalidBody, s))))"

text \<open>The mappers of \<^verbatim>\<open>createAccountPlaylists\<close>, one url after the other in
  the order handed over; what one url throws is caught and logged.\<close>

fun createAccountPlaylistsIn :: "env \<Rightarrow> string list \<Rightarrow> nat \<Rightarrow> store \<Rightarrow> store" where
  "createAccountPlaylistsIn env [] account s = s"
| "createAccountPlaylistsIn env (playlistUrl # rest) account s =
     createAccountPlaylistsIn env rest account
       (snd (createAccountPlaylist env playlistUrl account s))"

text \<open>The urls are handled in the order of \<^verbatim>\<open>Bluebird.map\<close>; each mapper is
  taken as a whole, the interleaving of two mappers is not modelled.\<close>

definition createAccountPlaylists :: "env \<Rightarrow> string list \<Rightarrow> nat \<Rightarrow> store \<Rightarrow> store" where
  "createAccountPlaylists env playlistUrls account s =
     createAccountPlaylistsIn env (mapOrder env playlistUrls) account s"

section \<open>Concrete inputs\<close>

text \<open>For the examples, the origin check compares what stands between the
  \<^verbatim>\<open>//\<close> of a url and the next \<^verbatim>\<open>/\<close>.\<close>

definition urlHost :: "string \<Rightarrow> string" where
  "urlHost u = takeWhile (\<lambda>c. c \<noteq> CHR ''/'') (drop 2 (dropWhile (\<lambda>c. c \<noteq> CHR ''/'') u))"

definition sameHost :: "string \<Rightarrow> string \<Rightarrow> bool" where
  "sameHost a b = (urlHost a \<noteq> [] \<and> urlHost a = urlHost b)"

text \<open>A remote playlist of three elements, as its host serves it.\<close>

definition exPlaylistObject :: PlaylistObject where
  "exPlaylistObject =
     \<lparr>po_id = ''http://a.org/p/1'', po_name = ''new'', po_content = ''new text'',
      po_uuid = ''u1'', po_published = 10, po_updated = 900, po_attributedTo = None,
      po_icon = Some ''http://a.org/i.png'', po_to = Some [ACTIVITY_PUB_PUBLIC]\<rparr>"

definition exElementObject :: "nat \<Rightarrow> PlaylistElementObject" where
  "exElementObject n =
     (if n = 1 then
        \<lparr>eo_id = ''http://a.org/e/1'', eo_url = ''http://a.org/v/1'', eo_position = Some 1,
         eo_startTimestamp = Some 0, eo_stopTimestamp = Some 30\<rparr>
      else if n = 2 then
        \<lparr>eo_id = ''http://a.org/e/2'', eo_url = ''http://a.org/v/2'', eo_position = Some 2,
         eo_startTimestamp = None, eo_stopTimestamp = None\<rparr>
      else
        \<lparr>eo_id = ''http://a.org/e/3'', eo_url = ''http://a.org/v/3'', eo_position = Some 3,
         eo_startTimestamp = Some 5, eo_stopTimestamp = None\<rparr>)"

definition exRequest :: "string \<Rightarrow> error + (nat \<times> body)" where
  "exRequest u =
     (if u = ''http://a.org/p/1'' then Inr (200, PlaylistBody exPlaylistObject)
      else if u = ''http://a.org/e/1'' then Inr (200, ElementBody (exElementObject 1))
      else if u = ''http://a.org/e/2'' then Inr (200, ElementBody (exElementObject 2))
      else if u = ''http://a.org/e/3'' then Inr (200, ElementBody (exElementObject 3))
      else Inl RequestError)"

definition exVideo :: "string \<Rightarrow> error + nat" where
  "exVideo u =
     (if u = ''http://a.org/v/1'' then Inr 11
      else if u = ''http://a.org/v/2'' then Inr 12
      else if u = ''http://a.org/v/3'' then Inr 13
      else Inl ResolutionError)"

definition exCrawl :: "string \<Rightarrow> error + string list" where
  "exCrawl u =
     (if u = ''http://a.org/p/1''
      then Inr [''http://a.org/e/1'', ''http://a.org/e/2'', ''http://a.org/e/3'']
      else Inl RequestError)"

text \<open>The time is 1000 and a playlist is stale after 100; every collaborator
  succeeds and the mappers complete in the order of their urls.\<close>

definition exEnv :: env where
  "exEnv =
     \<lparr>now = 1000, refreshInterval = 100, doRequest = exRequest,
      isPlaylistObjectValid = (\<lambda>po. True), isPlaylistElementObjectValid = (\<lambda>eo. True),
      checkUrlsSameHost = sameHost,
      getOrCreateActorAndServerAndModel = (\<lambda>u. Inr None),
      getOrCreateVideoAndAccountAndChannel = exVideo,
      crawlCollectionPage = exCrawl,
      downloadImage = (\<lambda>u n. True),
      createAllowed = (\<lambda>stored a. True),
      mapOrder = (\<lambda>urls. urls)\<rparr>"

text \<open>The local copy of that playlist, last refreshed at time 0, with one element.\<close>

definition exPlaylist :: VideoPlaylistModel where
  "exPlaylist =
     \<lparr>pl_id = 1,
      pl_attrs =
        \<lparr>pa_name = ''old'', pa_description = ''old text'', pa_privacy = PUBLIC,
         pa_url = ''http://a.org/p/1'', pa_uuid = ''u1'', pa_ownerAccountId = 7,
         pa_videoChannelId = None, pa_createdAt = 10, pa_updatedAt = 20\<rparr>,
      pl_lastRefreshedAt = 0\<rparr>"

definition exElement :: VideoPlaylistElementModel where
  "exElement =
     \<lparr>el_id = 1,
      el_attrs =
        \<lparr>ea_position = Some 1, ea_url = ''http://a.org/e/9'', ea_startTimestamp = None,
         ea_stopTimestamp = None, ea_videoPlaylistId = 1, ea_videoId = 5\<rparr>\<rparr>"

definition exStore :: store where
  "exStore =
     \<lparr>playlists = [exPlaylist], elements = [exElement], nextPlaylistId = 2,
      nextElementId = 2, thumbnails = [], thumbnailCalls = []\<rparr>"

text \<open>The remote answers 404.\<close>

definition goneEnv :: env where
  "goneEnv = exEnv\<lparr>doRequest := (\<lambda>u. Inr (404, OtherBody))\<rparr>"

text \<open>The remote answers 200 with a body that is no playlist object.\<close>

definition garbageEnv :: env where
  "garbageEnv = exEnv\<lparr>doRequest := (\<lambda>u. Inr (200, OtherBody))\<rparr>"

text \<open>The element table rejects every insertion.\<close>

definition rejectingEnv :: env where
  "rejectingEnv = exEnv\<lparr>createAllowed := (\<lambda>stored a. False)\<rparr>"

text \<open>No video resolves.\<close>

definition unresolvedEnv :: env where
  "unresolvedEnv = exEnv\<lparr>getOrCreateVideoAndAccountAndChannel := (\<lambda>u. Inl ResolutionError)\<rparr>"

text \<open>The second video does not resolve.\<close>

definition secondFailsEnv :: env where
  "secondFailsEnv =
     exEnv\<lparr>getOrCreateVideoAndAccountAndChannel :=
             (\<lambda>u. if u = ''http://a.org/v/2'' then Inl ResolutionError else exVideo u)\<rparr>"

text \<open>The host \<^verbatim>\<open>b.org\<close> serves, under its own url, a playlist object that
  declares an identifier of \<^verbatim>\<open>a.org\<close>; its collection is empty.\<close>

definition spoofEnv :: env where
  "spoofEnv =
     exEnv\<lparr>doRequest :=
             (\<lambda>u. if u = ''http://b.org/p/1'' then Inr (200, PlaylistBody exPlaylistObject)
                  else Inl RequestError),
           crawlCollectionPage := (\<lambda>u. Inr [])\<rparr>"

text \<open>The collection of the remote playlist is empty.\<close>

definition emptyEnv :: env where
  "emptyEnv = exEnv\<lparr>crawlCollectionPage := (\<lambda>u. Inr [])\<rparr>"

text \<open>The attributes of the example manifest for account 7.\<close>

definition exAttributes :: playlist_attributes where
  "exAttributes =
     \<lparr>pa_name = ''new'', pa_description = ''new text'', pa_privacy = PUBLIC,
      pa_url = ''http://a.org/p/1'', pa_uuid = ''u1'', pa_ownerAccountId = 7,
      pa_videoChannelId = None, pa_createdAt = 10, pa_updatedAt = 900\<rparr>"



text \<open>Every image download fails.\<close>

definition failingImageEnv :: env where
  "failingImageEnv = exEnv\<lparr>downloadImage := (\<lambda>u n. False)\<rparr>"

section \<open>The element table under a reset\<close>

lemma create_appends:
  "create env a s = Inr s' \<Longrightarrow>
     elements s' = elements s @ [\<lparr>el_id = nextElementId s, el_attrs = a\<rparr>]
     \<and> playlists s' = playlists s \<and> nextPlaylistId s' = nextPlaylistId s
     \<and> thumbnails s' = thumbnails s \<and> thumbnailCalls s' = thumbnailCalls s"
  by (auto simp: create_def split: if_splits)

lemma createAll_appends:
  "createAll env as s = Inr s' \<Longrightarrow>
     (\<exists>new. elements s' = elements s @ new \<and> map el_attrs new = as)
     \<and> playlists s' = playlists s \<and> nextPlaylistId s' = nextPlaylistId s
     \<and> thumbnails s' = thumbnails s \<and> thumbnailCalls s' = thumbnailCalls s"
proof (induction as arbitrary: s)
  case Nil
  then show ?case by simp
next
  case (Cons a as)
  from Cons.prems obtain s1 where c: "create env a s = Inr s1" and r: "createAll env as s1 = Inr s'"
    by (auto split: sum.splits)
  from Cons.IH [OF r] obtain new where
    n: "elements s' = elements s1 @ new" "map el_attrs new = as"
    and o: "playlists s' = playlists s1" "nextPlaylistId s' = nextPlaylistId s1"
      "thumbnails s' = thumbnails s1" "thumbnailCalls s' = thumbnailCalls s1"
    by blast
  from create_appends [OF c] n have
    "elements s' = elements s @ (\<lparr>el_id = nextElementId s, el_attrs = a\<rparr> # new)"
    "map el_attrs (\<lparr>el_id = nextElementId s, el_attrs = a\<rparr> # new) = a # as"
    by simp_all
  with o create_appends [OF c] show ?case by metis
qed

lemma createAll_same_outcome:
  "map el_attrs (elements s) = map el_attrs (elements t) \<Longrightarrow>
     isl (createAll env as s) = isl (createAll env as t)"
proof (induction as arbitrary: s t)
  case Nil
  then show ?case by simp
next
  case (Cons a as)
  show ?case
  proof (cases "createAllowed env (map el_attrs (elements s)) a")
    case False
    with Cons.prems show ?thesis by (simp add: create_def)
  next
    case True
    let ?s1 = "s\<lparr>elements := elements s @ [\<lparr>el_id = nextElementId s, el_attrs = a\<rparr>],
                  nextElementId := Suc (nextElementId s)\<rparr>"
    let ?t1 = "t\<lparr>elements := elements t @ [\<lparr>el_id = nextElementId t, el_attrs = a\<rparr>],
                  nextElementId := Suc (nextElementId t)\<rparr>"
    have "map el_attrs (elements ?s1) = map el_attrs (elements ?t1)"
      using Cons.prems by simp
    from Cons.IH [OF this] True Cons.prems show ?thesis
      by (simp add: create_def)
  qed
qed

lemma elementsToCreate_playlist:
  "a \<in> set (elementsToCreate env urls p) \<Longrightarrow> ea_videoPlaylistId a = pl_id p"
  by (auto simp: elementsToCreate_def playlistElementObjectToDBAttributes_def)

lemma reset_success:
  assumes "resetVideoPlaylistElements env urls p s = (Inr u, s')"
  shows "\<exists>new. elements s' =
            filter (\<lambda>e. ea_videoPlaylistId (el_attrs e) \<noteq> pl_id p) (elements s) @ new
          \<and> map el_attrs new = elementsToCreate env urls p"
    and "playlists s' = playlists s" and "nextPlaylistId s' = nextPlaylistId s"
    and "thumbnails s' = thumbnails s" and "thumbnailCalls s' = thumbnailCalls s"
proof -
  from assms have c: "createAll env (elementsToCreate env urls p) (deleteAllOf (pl_id p) s) = Inr s'"
    by (auto simp: resetVideoPlaylistElements_def transaction_def split: sum.splits)
  from createAll_appends [OF c]
  show "\<exists>new. elements s' =
            filter (\<lambda>e. ea_videoPlaylistId (el_attrs e) \<noteq> pl_id p) (elements s) @ new
          \<and> map el_attrs new = elementsToCreate env urls p"
    and "playlists s' = playlists s" and "nextPlaylistId s' = nextPlaylistId s"
    and "thumbnails s' = thumbnails s" and "thumbnailCalls s' = thumbnailCalls s"
    by (simp_all add: deleteAllOf_def)
qed

lemma reset_failure:
  "resetVideoPlaylistElements env urls p s = (Inl e, s') \<Longrightarrow> s' = s"
  by (auto simp: resetVideoPlaylistElements_def transaction_def split: sum.splits)

lemma new_rows_of_playlist:
  assumes "map el_attrs new = elementsToCreate env urls p"
  shows "filter (\<lambda>e. ea_videoPlaylistId (el_attrs e) = pl_id p) new = new"
    and "filter (\<lambda>e. ea_videoPlaylistId (el_attrs e) \<noteq> pl_id p) new = []"
proof -
  have "\<forall>e\<in>set new. ea_videoPlaylistId (el_attrs e) = pl_id p"
  proof
    fix e assume "e \<in> set new"
    then have "el_attrs e \<in> set (map el_attrs new)" by simp
    with assms show "ea_videoPlaylistId (el_attrs e) = pl_id p"
      by (simp add: elementsToCreate_playlist)
  qed
  then show "filter (\<lambda>e. ea_videoPlaylistId (el_attrs e) = pl_id p) new = new"
    and "filter (\<lambda>e. ea_videoPlaylistId (el_attrs e) \<noteq> pl_id p) new = []"
    by (simp_all add: filter_empty_conv)
qed

text \<open>
  Claim C1. The replacement of a playlist's elements is all-or-nothing. Whatever
  \<^verbatim>\<open>resetVideoPlaylistElements\<close> returns: when it succeeds, the stored elements of the
  playlist are exactly the candidates that resolved, in their order, and the elements
  of the other playlists are as before; when the transaction fails, the stored elements
  are the ones from before the call.
\<close>

theorem reset_all_or_nothing:
  assumes "resetVideoPlaylistElements env urls p s = (r, s')"
  shows "(r = Inr () \<longrightarrow>
            map el_attrs (filter (\<lambda>e. ea_videoPlaylistId (el_attrs e) = pl_id p) (elements s'))
              = elementsToCreate env urls p
            \<and> filter (\<lambda>e. ea_videoPlaylistId (el_attrs e) \<noteq> pl_id p) (elements s')
              = filter (\<lambda>e. ea_videoPlaylistId (el_attrs e) \<noteq> pl_id p) (elements s))
       \<and> (r \<noteq> Inr () \<longrightarrow> elements s' = elements s)"
proof (cases r)
  case (Inl e)
  with assms reset_failure [of env urls p s e s'] show ?thesis by simp
next
  case (Inr u)
  from reset_success(1) [OF assms [unfolded Inr]] obtain new where
    n: "elements s' = filter (\<lambda>e. ea_videoPlaylistId (el_attrs e) \<noteq> pl_id p) (elements s) @ new"
      "map el_attrs new = elementsToCreate env urls p"
    by blast
  from n new_rows_of_playlist [OF n(2)] Inr show ?thesis
    by simp
qed


text \<open>With the second of three videos unresolved the two others are stored; when the
  table rejects the insertions the old element stays.\<close>

theorem reset_all_or_nothing_witness:
  "map el_attrs (elements (snd (resetVideoPlaylistElements secondFailsEnv
       [''http://a.org/e/1'', ''http://a.org/e/2'', ''http://a.org/e/3''] exPlaylist exStore)))
     = elementsToCreate secondFailsEnv
         [''http://a.org/e/1'', ''http://a.org/e/2'', ''http://a.org/e/3''] exPlaylist
   \<and> length (elementsToCreate secondFailsEnv
         [''http://a.org/e/1'', ''http://a.org/e/2'', ''http://a.org/e/3''] exPlaylist) = 2
   \<and> elements (snd (resetVideoPlaylistElements rejectingEnv
       [''http://a.org/e/1'', ''http://a.org/e/2'', ''http://a.org/e/3''] exPlaylist exStore))
     = [exElement]"
  using reset_all_or_nothing [of secondFailsEnv
       "[''http://a.org/e/1'', ''http://a.org/e/2'', ''http://a.org/e/3'']" exPlaylist exStore
       "Inr ()"
       "snd (resetVideoPlaylistElements secondFailsEnv
       [''http://a.org/e/1'', ''http://a.org/e/2'', ''http://a.org/e/3''] exPlaylist exStore)"]
    reset_all_or_nothing [of rejectingEnv
       "[''http://a.org/e/1'', ''http://a.org/e/2'', ''http://a.org/e/3'']" exPlaylist exStore
       "Inl DatabaseError"
       "snd (resetVideoPlaylistElements rejectingEnv
       [''http://a.org/e/1'', ''http://a.org/e/2'', ''http://a.org/e/3''] exPlaylist exStore)"]
  by (simp add: resetVideoPlaylistElements_def transaction_def elementsToCreate_def
      fetchElement_def secondFailsEnv_def rejectingEnv_def exEnv_def exRequest_def
      exElementObject_def exVideo_def sameHost_def urlHost_def deleteAllOf_def create_def
      exStore_def exPlaylist_def exElement_def playlistElementObjectToDBAttributes_def
      orNull_def)

text \<open>
  Claim C10. A declared start or stop timestamp that is absent or 0 is stored as null;
  every other timestamp is stored as declared.
\<close>

theorem falsy_timestamps_stored_as_null:
  "ea_startTimestamp (playlistElementObjectToDBAttributes eo p v)
     = (if eo_startTimestamp eo = None \<or> eo_startTimestamp eo = Some 0 then None
        else eo_startTimestamp eo)
   \<and> ea_stopTimestamp (playlistElementObjectToDBAttributes eo p v)
     = (if eo_stopTimestamp eo = None \<or> eo_stopTimestamp eo = Some 0 then None
        else eo_stopTimestamp eo)"
  by (simp add: playlistElementObjectToDBAttributes_def orNull_def split: option.splits)

text \<open>The first example element declares a start of 0 and a stop of 30.\<close>

theorem falsy_timestamps_stored_as_null_witness:
  "eo_startTimestamp (exElementObject 1) = Some 0
   \<and> ea_startTimestamp (playlistElementObjectToDBAttributes (exElementObject 1) exPlaylist 11)
       = None
   \<and> ea_stopTimestamp (playlistElementObjectToDBAttributes (exElementObject 1) exPlaylist 11)
       = Some 30"
  using falsy_timestamps_stored_as_null [of "exElementObject 1" exPlaylist 11]
  by (simp add: exElementObject_def)

section \<open>Refreshing a stale playlist\<close>

lemma refresh_404:
  assumes "isOutdated env p" and "doRequest env (pa_url (pl_attrs p)) = Inr (404, b)"
  shows "refreshVideoPlaylistIfNeeded env p s = (None, destroy p s)"
  using assms
  by (simp add: refreshVideoPlaylistIfNeeded_def refreshAttempt_def
      fetchRemoteVideoPlaylist_def split: body.splits)

text \<open>
  Claim C3. When the fetch of a refresh answers 404 (the playlist was stale, or nothing
  would have been fetched), whatever the body and whatever the store held,
  \<^verbatim>\<open>refreshVideoPlaylistIfNeeded\<close> returns \<^verbatim>\<open>undefined\<close> and afterwards neither
  the playlist's row nor any of its elements is stored.
\<close>

theorem refresh_404_removes_playlist:
  assumes "isOutdated env p" and "doRequest env (pa_url (pl_attrs p)) = Inr (404, b)"
  shows "fst (refreshVideoPlaylistIfNeeded env p s) = None
    \<and> pl_id p \<notin> set (map pl_id (playlists (snd (refreshVideoPlaylistIfNeeded env p s))))
    \<and> pl_id p \<notin> set (map (\<lambda>e. ea_videoPlaylistId (el_attrs e))
                        (elements (snd (refreshVideoPlaylistIfNeeded env p s))))"
  by (auto simp: refresh_404 [OF assms] destroy_def)

text \<open>The stale example playlist, stored with one element, and a remote that
  answers 404.\<close>

theorem refresh_404_removes_playlist_witness:
  "isOutdated goneEnv exPlaylist
   \<and> doRequest goneEnv (pa_url (pl_attrs exPlaylist)) = Inr (404, OtherBody)
   \<and> pl_id exPlaylist \<in> set (map pl_id (playlists exStore))
   \<and> pl_id exPlaylist \<in> set (map (\<lambda>e. ea_videoPlaylistId (el_attrs e)) (elements exStore))
   \<and> fst (refreshVideoPlaylistIfNeeded goneEnv exPlaylist exStore) = None
   \<and> pl_id exPlaylist
       \<notin> set (map pl_id (playlists (snd (refreshVideoPlaylistIfNeeded goneEnv exPlaylist exStore))))
   \<and> pl_id exPlaylist
       \<notin> set (map (\<lambda>e. ea_videoPlaylistId (el_attrs e))
               (elements (snd (refreshVideoPlaylistIfNeeded goneEnv exPlaylist exStore))))"
proof -
  have o: "isOutdated goneEnv exPlaylist"
    by (simp add: isOutdated_def goneEnv_def exEnv_def exPlaylist_def)
  have r: "doRequest goneEnv (pa_url (pl_attrs exPlaylist)) = Inr (404, OtherBody)"
    by (simp add: goneEnv_def)
  have m: "pl_id exPlaylist \<in> set (map pl_id (playlists exStore))"
    "pl_id exPlaylist \<in> set (map (\<lambda>e. ea_videoPlaylistId (el_attrs e)) (elements exStore))"
    by (simp_all add: exStore_def exPlaylist_def exElement_def)
  from o r m refresh_404_removes_playlist [OF o r, of exStore] show ?thesis
    by blast
qed

section \<open>The stored positions\<close>

lemma resolved_mset:
  "mset (resolved env urls)
     = image_mset (\<lambda>u. projr (fetchElement env u))
         (filter_mset (\<lambda>u. \<not> isl (fetchElement env u)) (mset urls))"
  by (induction urls) (auto split: sum.splits)

lemma resolved_rearranged:
  "mset xs = mset ys \<Longrightarrow> mset (resolved env xs) = mset (resolved env ys)"
  by (simp add: resolved_mset)





section \<open>The upsert\<close>

lemma find_map_stable:
  assumes "\<And>x. P (f x) = P x"
  shows "find P (map f xs) = map_option f (find P xs)"
  using assms by (induction xs) auto

lemma find_append_new:
  "find P xs = None \<Longrightarrow> P y \<Longrightarrow> find P (xs @ [y]) = Some y"
  by (induction xs) (auto split: if_splits)

lemma find_None_map_id:
  "find P xs = None \<Longrightarrow> map (\<lambda>x. if P x then g x else x) xs = xs"
  by (induction xs) (auto split: if_splits)

lemma upsert_again:
  assumes u: "upsert env a s = (pl, s1)" and t: "playlists t = playlists s1"
  shows "upsert env a t = (pl, t)"
proof (cases "find (\<lambda>r. pa_url (pl_attrs r) = pa_url a) (playlists s)")
  case None
  let ?row = "\<lparr>pl_id = nextPlaylistId s, pl_attrs = a, pl_lastRefreshedAt = now env\<rparr>"
  from u None have pl: "pl = ?row" and s1: "playlists s1 = playlists s @ [?row]"
    by (auto simp: upsert_def Let_def)
  have f: "find (\<lambda>r. pa_url (pl_attrs r) = pa_url a) (playlists t) = Some ?row"
    using find_append_new [OF None, of ?row] t s1 by simp
  have "map (\<lambda>x. if pa_url (pl_attrs x) = pa_url a then x\<lparr>pl_attrs := a\<rparr> else x)
          (playlists s @ [?row]) = playlists s @ [?row]"
    using find_None_map_id [OF None, of "\<lambda>x. x\<lparr>pl_attrs := a\<rparr>"] by simp
  with f pl t s1 show ?thesis
    by (simp add: upsert_def)
next
  case (Some r)
  let ?f = "\<lambda>x. if pa_url (pl_attrs x) = pa_url a then x\<lparr>pl_attrs := a\<rparr> else x"
  from u Some have pl: "pl = r\<lparr>pl_attrs := a\<rparr>" and s1: "playlists s1 = map ?f (playlists s)"
    by (auto simp: upsert_def)
  have "find (\<lambda>r. pa_url (pl_attrs r) = pa_url a) (map ?f (playlists s))
      = map_option ?f (find (\<lambda>r. pa_url (pl_attrs r) = pa_url a) (playlists s))"
    by (rule find_map_stable) simp
  with Some have f: "find (\<lambda>r. pa_url (pl_attrs r) = pa_url a) (playlists t) = Some (?f r)"
    using t s1 by simp
  from Some have m: "pa_url (pl_attrs r) = pa_url a"
    by (auto simp: find_Some_iff)
  have "map ?f (map ?f (playlists s)) = map ?f (playlists s)"
    by simp
  with f pl t s1 m show ?thesis
    by (simp add: upsert_def)
qed

lemma upsert_frame:
  "upsert env a s = (pl, s1) \<Longrightarrow>
     elements s1 = elements s \<and> thumbnails s1 = thumbnails s
     \<and> thumbnailCalls s1 = thumbnailCalls s"
  by (auto simp: upsert_def Let_def split: option.splits)

lemma thumbnailStep_frame:
  "elements (thumbnailStep env pl po items s) = elements s
   \<and> playlists (thumbnailStep env pl po items s) = playlists s"
  by (simp add: thumbnailStep_def generateThumbnailFromUrl_def Let_def split: option.splits)

lemmas example_defs =
  createOrUpdateVideoPlaylist_def playlistObjectToDBAttributes_def attributeChannel_def
  upsert_def thumbnailStep_def generateThumbnailFromUrl_def getThumbnailName_def
  resetVideoPlaylistElements_def transaction_def elementsToCreate_def fetchElement_def
  deleteAllOf_def create_def playlistElementObjectToDBAttributes_def orNull_def
  exEnv_def exRequest_def exCrawl_def exVideo_def exElementObject_def exPlaylistObject_def
  exStore_def exPlaylist_def exElement_def sameHost_def urlHost_def

section \<open>The thumbnail\<close>

lemma fetchElement_downloadImage:
  "fetchElement (env\<lparr>downloadImage := d\<rparr>) u = fetchElement env u"
  by (simp add: fetchElement_def split: sum.splits prod.splits body.splits)

lemma resolved_downloadImage:
  "resolved (env\<lparr>downloadImage := d\<rparr>) urls = resolved env urls"
  by (induction urls) (simp_all add: fetchElement_downloadImage split: sum.splits)

lemma createAll_downloadImage:
  "createAll (env\<lparr>downloadImage := d\<rparr>) as s = createAll env as s"
  by (induction as arbitrary: s) (simp_all add: create_def)

lemma createAll_thumbnails:
  "createAll env as (s\<lparr>thumbnails := th\<rparr>)
     = (case createAll env as s of Inl e \<Rightarrow> Inl e | Inr s' \<Rightarrow> Inr (s'\<lparr>thumbnails := th\<rparr>))"
proof (induction as arbitrary: s)
  case Nil
  show ?case by simp
next
  case (Cons a as)
  let ?s1 = "s\<lparr>elements := elements s @ [\<lparr>el_id = nextElementId s, el_attrs = a\<rparr>],
               nextElementId := Suc (nextElementId s)\<rparr>"
  show ?case
  proof (cases "createAllowed env (map el_attrs (elements s)) a")
    case False
    then show ?thesis by (simp add: create_def)
  next
    case True
    then have 1: "create env a (s\<lparr>thumbnails := th\<rparr>) = Inr (?s1\<lparr>thumbnails := th\<rparr>)"
      by (simp add: create_def)
    from True have 2: "create env a s = Inr ?s1"
      by (simp add: create_def)
    show ?thesis
      by (simp only: createAll.simps 1 2 sum.case Cons.IH)
  qed
qed

lemma reset_downloadImage:
  "resetVideoPlaylistElements (env\<lparr>downloadImage := d\<rparr>) urls p (s\<lparr>thumbnails := th\<rparr>)
     = (case resetVideoPlaylistElements env urls p s of
          (r, s') \<Rightarrow> (r, s'\<lparr>thumbnails := th\<rparr>))"
proof -
  have "deleteAllOf (pl_id p) (s\<lparr>thumbnails := th\<rparr>) = (deleteAllOf (pl_id p) s)\<lparr>thumbnails := th\<rparr>"
    by (simp add: deleteAllOf_def)
  then show ?thesis
    by (simp add: resetVideoPlaylistElements_def transaction_def elementsToCreate_def
      resolved_downloadImage createAll_downloadImage createAll_thumbnails
      split: sum.splits)
qed

lemma thumbnailStep_downloadImage:
  "\<exists>th. thumbnailStep (env\<lparr>downloadImage := d\<rparr>) pl po items s
      = (thumbnailStep env pl po items s)\<lparr>thumbnails := th\<rparr>"
proof -
  have "thumbnailStep (env\<lparr>downloadImage := d\<rparr>) pl po items s
     = (thumbnailStep env pl po items s)
         \<lparr>thumbnails := thumbnails (thumbnailStep (env\<lparr>downloadImage := d\<rparr>) pl po items s)\<rparr>"
    by (simp add: thumbnailStep_def generateThumbnailFromUrl_def Let_def split: option.splits)
  then show ?thesis ..
qed

lemma createOrUpdate_downloadImage:
  "\<exists>th. createOrUpdateVideoPlaylist (env\<lparr>downloadImage := d\<rparr>) po byAccount to s
      = (fst (createOrUpdateVideoPlaylist env po byAccount to s),
         (snd (createOrUpdateVideoPlaylist env po byAccount to s))\<lparr>thumbnails := th\<rparr>)"
proof (cases "playlistObjectToDBAttributes po byAccount to")
  case (Inl e)
  then have "createOrUpdateVideoPlaylist (env\<lparr>downloadImage := d\<rparr>) po byAccount to s
      = (fst (createOrUpdateVideoPlaylist env po byAccount to s),
         (snd (createOrUpdateVideoPlaylist env po byAccount to s))\<lparr>thumbnails := thumbnails s\<rparr>)"
    by (simp add: createOrUpdateVideoPlaylist_def)
  then show ?thesis ..
next
  case a: (Inr attrs0)
  have ac: "attributeChannel (env\<lparr>downloadImage := d\<rparr>) po attrs0 = attributeChannel env po attrs0"
    by (simp add: attributeChannel_def split: option.splits list.splits sum.splits)
  show ?thesis
  proof (cases "attributeChannel env po attrs0")
    case (Inl e)
    with a ac have "createOrUpdateVideoPlaylist (env\<lparr>downloadImage := d\<rparr>) po byAccount to s
      = (fst (createOrUpdateVideoPlaylist env po byAccount to s),
         (snd (createOrUpdateVideoPlaylist env po byAccount to s))\<lparr>thumbnails := thumbnails s\<rparr>)"
      by (simp add: createOrUpdateVideoPlaylist_def)
    then show ?thesis ..
  next
    case b: (Inr attrs)
    obtain pl sa where u: "upsert env attrs s = (pl, sa)"
      by (cases "upsert env attrs s")
    then have u': "upsert (env\<lparr>downloadImage := d\<rparr>) attrs s = (pl, sa)"
      by (simp add: upsert_def split: option.splits)
    show ?thesis
    proof (cases "crawlCollectionPage env (po_id po)")
      case (Inl e)
      with a ac b u u'
      have "createOrUpdateVideoPlaylist (env\<lparr>downloadImage := d\<rparr>) po byAccount to s
        = (fst (createOrUpdateVideoPlaylist env po byAccount to s),
           (snd (createOrUpdateVideoPlaylist env po byAccount to s))\<lparr>thumbnails := thumbnails sa\<rparr>)"
        by (simp add: createOrUpdateVideoPlaylist_def)
      then show ?thesis ..
    next
      case c: (Inr items)
      from thumbnailStep_downloadImage obtain th where
        ts: "thumbnailStep (env\<lparr>downloadImage := d\<rparr>) pl po items sa
               = (thumbnailStep env pl po items sa)\<lparr>thumbnails := th\<rparr>"
        by blast
      have "resetVideoPlaylistElements (env\<lparr>downloadImage := d\<rparr>) items pl
              (thumbnailStep (env\<lparr>downloadImage := d\<rparr>) pl po items sa)
          = (case resetVideoPlaylistElements env items pl (thumbnailStep env pl po items sa) of
               (r, s') \<Rightarrow> (r, s'\<lparr>thumbnails := th\<rparr>))"
        by (simp only: ts reset_downloadImage)
      with a ac b u u' c
      have "createOrUpdateVideoPlaylist (env\<lparr>downloadImage := d\<rparr>) po byAccount to s
        = (fst (createOrUpdateVideoPlaylist env po byAccount to s),
           (snd (createOrUpdateVideoPlaylist env po byAccount to s))\<lparr>thumbnails := th\<rparr>)"
        by (simp add: createOrUpdateVideoPlaylist_def split: prod.splits)
      then show ?thesis ..
    qed
  qed
qed

lemma reset_frame:
  "thumbnailCalls (snd (resetVideoPlaylistElements env urls p s)) = thumbnailCalls s
   \<and> playlists (snd (resetVideoPlaylistElements env urls p s)) = playlists s"
proof (cases "resetVideoPlaylistElements env urls p s")
  case (Pair r s')
  show ?thesis
  proof (cases r)
    case (Inl e)
    with Pair reset_failure [of env urls p s e s'] show ?thesis by simp
  next
    case (Inr u)
    with Pair reset_success(2,5) [of env urls p s u s'] show ?thesis by simp
  qed
qed

lemma upsert_row:
  assumes "upsert env a s = (pl, s1)"
  shows "pl \<in> set (playlists s1)" and "pl_attrs pl = a"
    and "\<forall>r\<in>set (playlists s1). pa_url (pl_attrs r) = pa_url a \<longrightarrow> pl_attrs r = a"
proof -
  show "pl \<in> set (playlists s1)"
  proof (cases "find (\<lambda>r. pa_url (pl_attrs r) = pa_url a) (playlists s)")
    case None
    with assms show ?thesis by (auto simp: upsert_def Let_def)
  next
    case (Some r)
    then have "r \<in> set (playlists s)" and "pa_url (pl_attrs r) = pa_url a"
      by (auto simp: find_Some_iff)
    with Some assms show ?thesis by (auto simp: upsert_def)
  qed
  show "pl_attrs pl = a"
    using assms by (auto simp: upsert_def Let_def split: option.splits)
  show "\<forall>r\<in>set (playlists s1). pa_url (pl_attrs r) = pa_url a \<longrightarrow> pl_attrs r = a"
  proof (cases "find (\<lambda>r. pa_url (pl_attrs r) = pa_url a) (playlists s)")
    case None
    then have "\<forall>r\<in>set (playlists s). pa_url (pl_attrs r) \<noteq> pa_url a"
      by (simp add: find_None_iff)
    with None assms show ?thesis by (auto simp: upsert_def Let_def)
  next
    case (Some r)
    with assms show ?thesis by (auto simp: upsert_def)
  qed
qed

lemma attributeChannel_keeps:
  "attributeChannel env po a0 = Inr a \<Longrightarrow>
     pa_name a = pa_name a0 \<and> pa_description a = pa_description a0 \<and> pa_url a = pa_url a0"
  by (auto simp: attributeChannel_def split: option.splits list.splits sum.splits)

section \<open>Reconciling twice\<close>

lemma fetchElement_mapOrder:
  "fetchElement (env\<lparr>mapOrder := c\<rparr>) u = fetchElement env u"
  by (simp add: fetchElement_def split: sum.splits prod.splits body.splits)

lemma resolved_mapOrder:
  "resolved (env\<lparr>mapOrder := c\<rparr>) urls = resolved env urls"
  by (induction urls) (simp_all add: fetchElement_mapOrder split: sum.splits)

lemma createAll_mapOrder:
  "createAll (env\<lparr>mapOrder := c\<rparr>) as s = createAll env as s"
  by (induction as arbitrary: s) (simp_all add: create_def)

lemma elementsToCreate_mapOrder:
  "elementsToCreate (env\<lparr>mapOrder := c\<rparr>) urls p
     = map (\<lambda>(eo, video). playlistElementObjectToDBAttributes eo p video)
         (resolved env (c urls))"
  by (simp add: elementsToCreate_def resolved_mapOrder)

lemma elementsToCreate_rearranged:
  assumes "mset (mapOrder env urls) = mset urls" and "mset (c urls) = mset urls"
  shows "mset (elementsToCreate (env\<lparr>mapOrder := c\<rparr>) urls p)
           = mset (elementsToCreate env urls p)"
proof -
  from assms have "mset (c urls) = mset (mapOrder env urls)" by simp
  from resolved_rearranged [OF this]
  have "mset (resolved env (c urls)) = mset (resolved env (mapOrder env urls))" .
  then have "image_mset (\<lambda>(eo, video). playlistElementObjectToDBAttributes eo p video)
               (mset (resolved env (c urls)))
      = image_mset (\<lambda>(eo, video). playlistElementObjectToDBAttributes eo p video)
               (mset (resolved env (mapOrder env urls)))"
    by simp
  moreover have "mset (elementsToCreate (env\<lparr>mapOrder := c\<rparr>) urls p)
      = image_mset (\<lambda>(eo, video). playlistElementObjectToDBAttributes eo p video)
               (mset (resolved env (c urls)))"
    by (simp add: elementsToCreate_mapOrder)
  moreover have "mset (elementsToCreate env urls p)
      = image_mset (\<lambda>(eo, video). playlistElementObjectToDBAttributes eo p video)
               (mset (resolved env (mapOrder env urls)))"
    by (simp add: elementsToCreate_def)
  ultimately show ?thesis by simp
qed

lemma reset_mapOrder:
  "resetVideoPlaylistElements (env\<lparr>mapOrder := c\<rparr>) urls p s
     = transaction
         (\<lambda>t. createAll env (elementsToCreate (env\<lparr>mapOrder := c\<rparr>) urls p)
                (deleteAllOf (pl_id p) t)) s"
  by (simp add: resetVideoPlaylistElements_def createAll_mapOrder)

lemma createOrUpdate_mapOrder:
  assumes "playlistObjectToDBAttributes po byAccount to = Inr attrs0"
    and "attributeChannel env po attrs0 = Inr attrs"
    and "upsert env attrs s = (pl, sa)"
    and "crawlCollectionPage env (po_id po) = Inr items"
  shows "createOrUpdateVideoPlaylist (env\<lparr>mapOrder := c\<rparr>) po byAccount to s
       = resetVideoPlaylistElements (env\<lparr>mapOrder := c\<rparr>) items pl
           (thumbnailStep env pl po items sa)"
proof -
  have 1: "attributeChannel (env\<lparr>mapOrder := c\<rparr>) po attrs0 = attributeChannel env po attrs0"
    by (simp add: attributeChannel_def split: option.splits list.splits sum.splits)
  have 2: "upsert (env\<lparr>mapOrder := c\<rparr>) attrs s = upsert env attrs s"
    by (simp add: upsert_def split: option.splits)
  have 3: "thumbnailStep (env\<lparr>mapOrder := c\<rparr>) pl po items sa = thumbnailStep env pl po items sa"
    by (simp add: thumbnailStep_def generateThumbnailFromUrl_def Let_def split: option.splits)
  from assms 1 2 3 show ?thesis
    by (simp add: createOrUpdateVideoPlaylist_def)
qed

lemma reset_again:
  assumes r: "resetVideoPlaylistElements env urls p s = (Inr (), s1)"
    and t: "elements t = elements s1"
    and m: "mset (elementsToCreate (env\<lparr>mapOrder := c\<rparr>) urls p)
              = mset (elementsToCreate env urls p)"
  shows "mset (map el_attrs
           (elements (snd (resetVideoPlaylistElements (env\<lparr>mapOrder := c\<rparr>) urls p t))))
         = mset (map el_attrs (elements s1))"
    and "playlists (snd (resetVideoPlaylistElements (env\<lparr>mapOrder := c\<rparr>) urls p t))
         = playlists t"
    and "elementsToCreate (env\<lparr>mapOrder := c\<rparr>) urls p = elementsToCreate env urls p
         \<Longrightarrow> fst (resetVideoPlaylistElements (env\<lparr>mapOrder := c\<rparr>) urls p t) = Inr ()
           \<and> map el_attrs
                (elements (snd (resetVideoPlaylistElements (env\<lparr>mapOrder := c\<rparr>) urls p t)))
              = map el_attrs (elements s1)"
proof -
  let ?env' = "env\<lparr>mapOrder := c\<rparr>"
  let ?keep = "filter (\<lambda>e. ea_videoPlaylistId (el_attrs e) \<noteq> pl_id p)"
  let ?as = "elementsToCreate env urls p"
  let ?as' = "elementsToCreate ?env' urls p"
  from reset_success(1) [OF r] obtain new where
    n: "elements s1 = ?keep (elements s) @ new" "map el_attrs new = ?as"
    by blast
  from n t new_rows_of_playlist(2) [OF n(2)]
  have k: "elements (deleteAllOf (pl_id p) t) = ?keep (elements s)"
    by (simp add: deleteAllOf_def)
  have run: "resetVideoPlaylistElements ?env' urls p t
      = (case createAll env ?as' (deleteAllOf (pl_id p) t) of
           Inl e \<Rightarrow> (Inl e, t) | Inr t1 \<Rightarrow> (Inr (), t1))"
    by (simp add: reset_mapOrder transaction_def)
  show "mset (map el_attrs (elements (snd (resetVideoPlaylistElements ?env' urls p t))))
         = mset (map el_attrs (elements s1))"
  proof (cases "createAll env ?as' (deleteAllOf (pl_id p) t)")
    case (Inl e)
    with run t show ?thesis by simp
  next
    case (Inr t1)
    from createAll_appends [OF Inr] obtain new' where
      "elements t1 = elements (deleteAllOf (pl_id p) t) @ new'" "map el_attrs new' = ?as'"
      by blast
    with k have "map el_attrs (elements t1) = map el_attrs (?keep (elements s)) @ ?as'"
      by simp
    then have "mset (map el_attrs (elements t1))
        = mset (map el_attrs (?keep (elements s))) + mset ?as'"
      by simp
    also have "\<dots> = mset (map el_attrs (?keep (elements s))) + mset ?as"
      by (simp only: m)
    also have "\<dots> = mset (map el_attrs (elements s1))"
      using n by simp
    finally show ?thesis using run Inr by simp
  qed
  show "playlists (snd (resetVideoPlaylistElements ?env' urls p t)) = playlists t"
    by (rule conjunct2 [OF reset_frame])
  show "fst (resetVideoPlaylistElements ?env' urls p t) = Inr ()
           \<and> map el_attrs (elements (snd (resetVideoPlaylistElements ?env' urls p t)))
              = map el_attrs (elements s1)"
    if same: "?as' = ?as"
  proof -
    from r have c: "createAll env ?as (deleteAllOf (pl_id p) s) = Inr s1"
      by (auto simp: resetVideoPlaylistElements_def transaction_def split: sum.splits)
    have "map el_attrs (elements (deleteAllOf (pl_id p) t))
        = map el_attrs (elements (deleteAllOf (pl_id p) s))"
      using k by (simp add: deleteAllOf_def)
    from createAll_same_outcome [OF this, of env ?as] c
    obtain t1 where c': "createAll env ?as (deleteAllOf (pl_id p) t) = Inr t1"
      by (cases "createAll env ?as (deleteAllOf (pl_id p) t)") auto
    from createAll_appends [OF c'] obtain new' where
      "elements t1 = elements (deleteAllOf (pl_id p) t) @ new'" "map el_attrs new' = ?as"
      by blast
    with k n have "map el_attrs (elements t1) = map el_attrs (elements s1)"
      by simp
    with run same c' show ?thesis by simp
  qed
qed

text \<open>
  Claim C7. Reconciling is idempotent. When \<^verbatim>\<open>createOrUpdateVideoPlaylist\<close> has
  succeeded for a manifest, running it again on the resulting store, with the manifest
  and the answers of the collaborators unchanged and whatever the order in which the
  mappers of the second run complete, leaves the same playlist rows and the same
  elements: the same attributes (the positions among them) with the same
  multiplicities, hence the same count; only the surrogate ids and the order of
  insertion can differ. When the mappers complete in the same order as in the first
  run, the second run succeeds and inserts the same attributes in the same order.
\<close>

theorem reconcile_idempotent:
  assumes "createOrUpdateVideoPlaylist env po byAccount to s = (Inr (), s1)"
    and "crawlCollectionPage env (po_id po) = Inr items"
    and "mset (mapOrder env items) = mset items"
    and "mset (c items) = mset items"
  shows "mset (map el_attrs (elements (snd (createOrUpdateVideoPlaylist
             (env\<lparr>mapOrder := c\<rparr>) po byAccount to s1))))
           = mset (map el_attrs (elements s1))
    \<and> length (elements (snd (createOrUpdateVideoPlaylist
             (env\<lparr>mapOrder := c\<rparr>) po byAccount to s1)))
           = length (elements s1)
    \<and> playlists (snd (createOrUpdateVideoPlaylist (env\<lparr>mapOrder := c\<rparr>) po byAccount to s1))
           = playlists s1
    \<and> (c items = mapOrder env items \<longrightarrow>
          fst (createOrUpdateVideoPlaylist (env\<lparr>mapOrder := c\<rparr>) po byAccount to s1) = Inr ()
          \<and> map el_attrs (elements (snd (createOrUpdateVideoPlaylist
                (env\<lparr>mapOrder := c\<rparr>) po byAccount to s1)))
              = map el_attrs (elements s1))"
proof -
  let ?env' = "env\<lparr>mapOrder := c\<rparr>"
  from assms(1,2) obtain attrs0 attrs pl sa where
    a: "playlistObjectToDBAttributes po byAccount to = Inr attrs0"
    and b: "attributeChannel env po attrs0 = Inr attrs"
    and u: "upsert env attrs s = (pl, sa)"
    and r: "resetVideoPlaylistElements env items pl (thumbnailStep env pl po items sa)
              = (Inr (), s1)"
    by (auto simp: createOrUpdateVideoPlaylist_def split: sum.splits prod.splits)
  from reset_success(2) [OF r] have "playlists s1 = playlists sa"
    by (simp add: thumbnailStep_frame)
  from upsert_again [OF u this] have u': "upsert env attrs s1 = (pl, s1)" .
  let ?t = "thumbnailStep env pl po items s1"
  let ?run = "createOrUpdateVideoPlaylist ?env' po byAccount to s1"
  have run: "?run = resetVideoPlaylistElements ?env' items pl ?t"
    by (rule createOrUpdate_mapOrder [OF a b u' assms(2)])
  have t: "elements ?t = elements s1" "playlists ?t = playlists s1"
    by (simp_all add: thumbnailStep_frame)
  have m: "mset (elementsToCreate ?env' items pl) = mset (elementsToCreate env items pl)"
    by (rule elementsToCreate_rearranged [where c = c, OF assms(3,4)])
  from reset_again(1) [OF r t(1) m] have 1: "mset (map el_attrs (elements (snd ?run)))
      = mset (map el_attrs (elements s1))"
    by (simp only: run)
  then have "size (mset (map el_attrs (elements (snd ?run))))
      = size (mset (map el_attrs (elements s1)))"
    by simp
  then have 2: "length (elements (snd ?run)) = length (elements s1)"
    by simp
  from reset_again(2) [OF r t(1) m] t(2) have 3: "playlists (snd ?run) = playlists s1"
    by (simp only: run)
  have 4: "fst ?run = Inr () \<and> map el_attrs (elements (snd ?run)) = map el_attrs (elements s1)"
    if "c items = mapOrder env items"
  proof -
    have "elementsToCreate ?env' items pl
        = map (\<lambda>(eo, video). playlistElementObjectToDBAttributes eo pl video)
            (resolved env (c items))"
      by (rule elementsToCreate_mapOrder)
    with that have "elementsToCreate ?env' items pl = elementsToCreate env items pl"
      by (simp add: elementsToCreate_def)
    from reset_again(3) [OF r t(1) m this] show ?thesis
      by (simp only: run)
  qed
  from 1 2 3 4 show ?thesis by (intro conjI impI) simp_all
qed

text \<open>The example manifest, reconciled on the example store with the mappers
  completing first to last, and then again with the mappers completing last to first:
  the three rows are inserted in the opposite order and carry the same attributes.\<close>

theorem reconcile_idempotent_witness:
  "createOrUpdateVideoPlaylist exEnv exPlaylistObject 7 (po_to exPlaylistObject) exStore
     = (Inr (), snd (createOrUpdateVideoPlaylist exEnv exPlaylistObject 7
                       (po_to exPlaylistObject) exStore))
   \<and> crawlCollectionPage exEnv (po_id exPlaylistObject)
     = Inr [''http://a.org/e/1'', ''http://a.org/e/2'', ''http://a.org/e/3'']
   \<and> mset (map el_attrs (elements (snd (createOrUpdateVideoPlaylist (exEnv\<lparr>mapOrder := rev\<rparr>)
        exPlaylistObject 7 (po_to exPlaylistObject)
        (snd (createOrUpdateVideoPlaylist exEnv exPlaylistObject 7
                (po_to exPlaylistObject) exStore))))))
     = mset (map el_attrs (elements (snd (createOrUpdateVideoPlaylist exEnv exPlaylistObject 7
                (po_to exPlaylistObject) exStore))))
   \<and> map (\<lambda>e. ea_position (el_attrs e))
        (elements (snd (createOrUpdateVideoPlaylist exEnv exPlaylistObject 7
                          (po_to exPlaylistObject) exStore)))
     = [Some 1, Some 2, Some 3]
   \<and> map (\<lambda>e. ea_position (el_attrs e))
        (elements (snd (createOrUpdateVideoPlaylist (exEnv\<lparr>mapOrder := rev\<rparr>)
           exPlaylistObject 7 (po_to exPlaylistObject)
           (snd (createOrUpdateVideoPlaylist exEnv exPlaylistObject 7
                   (po_to exPlaylistObject) exStore)))))
     = [Some 3, Some 2, Some 1]"
proof -
  let ?urls = "[''http://a.org/e/1'', ''http://a.org/e/2'', ''http://a.org/e/3'']"
  let ?s1 = "snd (createOrUpdateVideoPlaylist exEnv exPlaylistObject 7
                    (po_to exPlaylistObject) exStore)"
  have s1: "createOrUpdateVideoPlaylist exEnv exPlaylistObject 7
               (po_to exPlaylistObject) exStore
      = (Inr (), exStore\<lparr>playlists := [exPlaylist\<lparr>pl_attrs := exAttributes\<rparr>],
           elements :=
             [\<lparr>el_id = 2, el_attrs = playlistElementObjectToDBAttributes (exElementObject 1)
                                        exPlaylist 11\<rparr>,
              \<lparr>el_id = 3, el_attrs = playlistElementObjectToDBAttributes (exElementObject 2)
                                        exPlaylist 12\<rparr>,
              \<lparr>el_id = 4, el_attrs = playlistElementObjectToDBAttributes (exElementObject 3)
                                        exPlaylist 13\<rparr>],
           nextElementId := 5,
           thumbnails := [(''u1.jpg'', ''http://a.org/i.png'')],
           thumbnailCalls := [1]\<rparr>)"
    by (simp add: example_defs exAttributes_def)
  then have h: "createOrUpdateVideoPlaylist exEnv exPlaylistObject 7
                  (po_to exPlaylistObject) exStore = (Inr (), ?s1)"
    by simp
  have k: "crawlCollectionPage exEnv (po_id exPlaylistObject) = Inr ?urls"
    by (simp add: exEnv_def exCrawl_def exPlaylistObject_def)
  have m: "mset (mapOrder exEnv ?urls) = mset ?urls" "mset (rev ?urls) = mset ?urls"
    by (simp_all add: exEnv_def)
  have e1: "map (\<lambda>e. ea_position (el_attrs e)) (elements ?s1) = [Some 1, Some 2, Some 3]"
    by (simp add: s1 playlistElementObjectToDBAttributes_def exElementObject_def)
  have e2: "map (\<lambda>e. ea_position (el_attrs e))
        (elements (snd (createOrUpdateVideoPlaylist (exEnv\<lparr>mapOrder := rev\<rparr>)
           exPlaylistObject 7 (po_to exPlaylistObject) ?s1)))
     = [Some 3, Some 2, Some 1]"
    by (simp add: s1) (simp add: example_defs exAttributes_def)
  from reconcile_idempotent [where c = rev, OF h k m] h k e1 e2 show ?thesis
    by blast
qed

section \<open>The thumbnail and the outcome\<close>

lemma createAll_side:
  "createAll env as (s\<lparr>thumbnails := th, thumbnailCalls := tc\<rparr>)
     = (case createAll env as s of
          Inl e \<Rightarrow> Inl e
        | Inr s' \<Rightarrow> Inr (s'\<lparr>thumbnails := th, thumbnailCalls := tc\<rparr>))"
proof (induction as arbitrary: s)
  case Nil
  show ?case by simp
next
  case (Cons a as)
  let ?s1 = "s\<lparr>elements := elements s @ [\<lparr>el_id = nextElementId s, el_attrs = a\<rparr>],
               nextElementId := Suc (nextElementId s)\<rparr>"
  show ?case
  proof (cases "createAllowed env (map el_attrs (elements s)) a")
    case False
    then show ?thesis by (simp add: create_def)
  next
    case True
    then have 1: "create env a (s\<lparr>thumbnails := th, thumbnailCalls := tc\<rparr>)
        = Inr (?s1\<lparr>thumbnails := th, thumbnailCalls := tc\<rparr>)"
      by (simp add: create_def)
    from True have 2: "create env a s = Inr ?s1"
      by (simp add: create_def)
    show ?thesis
      by (simp only: createAll.simps 1 2 sum.case Cons.IH)
  qed
qed

lemma reset_side:
  "resetVideoPlaylistElements env urls p (s\<lparr>thumbnails := th, thumbnailCalls := tc\<rparr>)
     = (case resetVideoPlaylistElements env urls p s of
          (r, s') \<Rightarrow> (r, s'\<lparr>thumbnails := th, thumbnailCalls := tc\<rparr>))"
proof -
  have "deleteAllOf (pl_id p) (s\<lparr>thumbnails := th, thumbnailCalls := tc\<rparr>)
      = (deleteAllOf (pl_id p) s)\<lparr>thumbnails := th, thumbnailCalls := tc\<rparr>"
    by (simp add: deleteAllOf_def)
  then show ?thesis
    by (simp add: resetVideoPlaylistElements_def transaction_def createAll_side
        split: sum.splits)
qed

lemma thumbnailStep_side:
  "\<exists>th tc. thumbnailStep env pl po items s = s\<lparr>thumbnails := th, thumbnailCalls := tc\<rparr>"
proof -
  have "thumbnailStep env pl po items s
      = s\<lparr>thumbnails := thumbnails (thumbnailStep env pl po items s),
           thumbnailCalls := thumbnailCalls (thumbnailStep env pl po items s)\<rparr>"
    by (simp add: thumbnailStep_def generateThumbnailFromUrl_def Let_def split: option.splits)
  then show ?thesis by blast
qed

text \<open>
  Claim C8, amended. When the reconciliation reaches the crawl and the crawl returns
  the item urls (handled by the mappers in some rearrangement), \<^verbatim>\<open>generateThumbnailFromUrl\<close> is called, once, if and only if the
  list of crawled item urls is non-empty (whether or not any of them resolves).
  Whatever the thumbnail step does (no icon to read, a failing download, a successful
  one), the reconciliation returns what \<^verbatim>\<open>resetVideoPlaylistElements\<close> returns on the
  upserted store and stores the elements that it stores there, and the playlist rows
  are those of the upsert; replacing the image download by any other changes none of
  this. For an empty item collection the reconciliation succeeds, the upserted
  playlist has no elements, its row is stored, every row with the manifest's
  identifier carries the manifest's name and description, and no thumbnail is
  generated.
\<close>

theorem thumbnail_follows_crawled_items:
  assumes a: "playlistObjectToDBAttributes po byAccount to = Inr attrs0"
    and b: "attributeChannel env po attrs0 = Inr attrs"
    and c: "crawlCollectionPage env (po_id po) = Inr items"
    and m: "mset (mapOrder env items) = mset items"
  shows "(thumbnailCalls (snd (createOrUpdateVideoPlaylist env po byAccount to s))
            \<noteq> thumbnailCalls s \<longleftrightarrow> items \<noteq> [])
    \<and> thumbnailCalls (snd (createOrUpdateVideoPlaylist env po byAccount to s))
        = (if items \<noteq> [] then thumbnailCalls s @ [pl_id (fst (upsert env attrs s))]
           else thumbnailCalls s)
    \<and> fst (createOrUpdateVideoPlaylist env po byAccount to s)
        = fst (resetVideoPlaylistElements env items (fst (upsert env attrs s))
                 (snd (upsert env attrs s)))
    \<and> elements (snd (createOrUpdateVideoPlaylist env po byAccount to s))
        = elements (snd (resetVideoPlaylistElements env items (fst (upsert env attrs s))
                           (snd (upsert env attrs s))))
    \<and> playlists (snd (createOrUpdateVideoPlaylist env po byAccount to s))
        = playlists (snd (upsert env attrs s))
    \<and> fst (createOrUpdateVideoPlaylist (env\<lparr>downloadImage := d\<rparr>) po byAccount to s)
        = fst (createOrUpdateVideoPlaylist env po byAccount to s)
    \<and> elements (snd (createOrUpdateVideoPlaylist (env\<lparr>downloadImage := d\<rparr>) po byAccount to s))
        = elements (snd (createOrUpdateVideoPlaylist env po byAccount to s))
    \<and> playlists (snd (createOrUpdateVideoPlaylist (env\<lparr>downloadImage := d\<rparr>) po byAccount to s))
        = playlists (snd (createOrUpdateVideoPlaylist env po byAccount to s))
    \<and> (items = [] \<longrightarrow>
          fst (createOrUpdateVideoPlaylist env po byAccount to s) = Inr ()
          \<and> filter (\<lambda>e. ea_videoPlaylistId (el_attrs e) = pl_id (fst (upsert env attrs s)))
              (elements (snd (createOrUpdateVideoPlaylist env po byAccount to s))) = []
          \<and> fst (upsert env attrs s)
              \<in> set (playlists (snd (createOrUpdateVideoPlaylist env po byAccount to s)))
          \<and> (\<forall>r\<in>set (playlists (snd (createOrUpdateVideoPlaylist env po byAccount to s))).
                pa_url (pl_attrs r) = po_id po \<longrightarrow>
                pa_name (pl_attrs r) = po_name po \<and> pa_description (pl_attrs r) = po_content po))"
proof -
  obtain pl sa where u: "upsert env attrs s = (pl, sa)"
    by (cases "upsert env attrs s")
  let ?t = "thumbnailStep env pl po items sa"
  from a b u c have run: "createOrUpdateVideoPlaylist env po byAccount to s
      = resetVideoPlaylistElements env items pl ?t"
    by (simp add: createOrUpdateVideoPlaylist_def)
  have calls: "thumbnailCalls (snd (createOrUpdateVideoPlaylist env po byAccount to s))
      = thumbnailCalls ?t"
    by (simp add: run reset_frame)
  have "thumbnailCalls ?t = (if items \<noteq> [] then thumbnailCalls s @ [pl_id pl] else thumbnailCalls s)"
    using upsert_frame [OF u]
    by (simp add: thumbnailStep_def generateThumbnailFromUrl_def Let_def split: option.splits)
  with calls have 0: "thumbnailCalls (snd (createOrUpdateVideoPlaylist env po byAccount to s))
        = (if items \<noteq> [] then thumbnailCalls s @ [pl_id (fst (upsert env attrs s))]
           else thumbnailCalls s)"
    by (simp add: u)
  then have 1: "thumbnailCalls (snd (createOrUpdateVideoPlaylist env po byAccount to s))
            \<noteq> thumbnailCalls s \<longleftrightarrow> items \<noteq> []"
    by simp
  from thumbnailStep_side obtain th tc where
    "?t = sa\<lparr>thumbnails := th, thumbnailCalls := tc\<rparr>"
    by blast
  then have "createOrUpdateVideoPlaylist env po byAccount to s
      = (case resetVideoPlaylistElements env items pl sa of
           (r, s') \<Rightarrow> (r, s'\<lparr>thumbnails := th, thumbnailCalls := tc\<rparr>))"
    by (simp only: run reset_side)
  then have 6: "fst (createOrUpdateVideoPlaylist env po byAccount to s)
        = fst (resetVideoPlaylistElements env items (fst (upsert env attrs s))
                 (snd (upsert env attrs s)))"
    and 7: "elements (snd (createOrUpdateVideoPlaylist env po byAccount to s))
        = elements (snd (resetVideoPlaylistElements env items (fst (upsert env attrs s))
                           (snd (upsert env attrs s))))"
    by (simp_all add: u split: prod.splits)
  have 8: "playlists (snd (createOrUpdateVideoPlaylist env po byAccount to s))
        = playlists (snd (upsert env attrs s))"
    by (simp add: run reset_frame thumbnailStep_frame u)
  from createOrUpdate_downloadImage [where env = env and d = d and po = po
      and byAccount = byAccount and to = to and s = s] obtain th where
    "createOrUpdateVideoPlaylist (env\<lparr>downloadImage := d\<rparr>) po byAccount to s
      = (fst (createOrUpdateVideoPlaylist env po byAccount to s),
         (snd (createOrUpdateVideoPlaylist env po byAccount to s))\<lparr>thumbnails := th\<rparr>)"
    by blast
  then have 2: "fst (createOrUpdateVideoPlaylist (env\<lparr>downloadImage := d\<rparr>) po byAccount to s)
        = fst (createOrUpdateVideoPlaylist env po byAccount to s)"
    and 3: "elements (snd (createOrUpdateVideoPlaylist (env\<lparr>downloadImage := d\<rparr>) po byAccount to s))
        = elements (snd (createOrUpdateVideoPlaylist env po byAccount to s))"
    and 4: "playlists (snd (createOrUpdateVideoPlaylist (env\<lparr>downloadImage := d\<rparr>) po byAccount to s))
        = playlists (snd (createOrUpdateVideoPlaylist env po byAccount to s))"
    by simp_all
  have 5: "fst (createOrUpdateVideoPlaylist env po byAccount to s) = Inr ()
          \<and> filter (\<lambda>e. ea_videoPlaylistId (el_attrs e) = pl_id (fst (upsert env attrs s)))
              (elements (snd (createOrUpdateVideoPlaylist env po byAccount to s))) = []
          \<and> fst (upsert env attrs s)
              \<in> set (playlists (snd (createOrUpdateVideoPlaylist env po byAccount to s)))
          \<and> (\<forall>r\<in>set (playlists (snd (createOrUpdateVideoPlaylist env po byAccount to s))).
                pa_url (pl_attrs r) = po_id po \<longrightarrow>
                pa_name (pl_attrs r) = po_name po \<and> pa_description (pl_attrs r) = po_content po)"
    if e: "items = []"
  proof -
    from e have t: "?t = sa"
      by (simp add: thumbnailStep_def)
    from m e have "mapOrder env [] = []"
      by simp
    then have r: "resetVideoPlaylistElements env [] pl sa = (Inr (), deleteAllOf (pl_id pl) sa)"
      by (simp add: resetVideoPlaylistElements_def transaction_def elementsToCreate_def)
    from a have n: "pa_name attrs0 = po_name po" "pa_description attrs0 = po_content po"
      "pa_url attrs0 = po_id po"
      by (auto simp: playlistObjectToDBAttributes_def split: option.splits)
    with attributeChannel_keeps [OF b] have n': "pa_name attrs = po_name po"
      "pa_description attrs = po_content po" "pa_url attrs = po_id po"
      by simp_all
    from run e t r have fin: "createOrUpdateVideoPlaylist env po byAccount to s
        = (Inr (), deleteAllOf (pl_id pl) sa)"
      by simp
    have f1: "fst (createOrUpdateVideoPlaylist env po byAccount to s) = Inr ()"
      by (simp add: fin)
    have f2: "filter (\<lambda>e. ea_videoPlaylistId (el_attrs e) = pl_id (fst (upsert env attrs s)))
              (elements (snd (createOrUpdateVideoPlaylist env po byAccount to s))) = []"
      by (simp add: fin u deleteAllOf_def filter_empty_conv)
    have f3: "fst (upsert env attrs s)
              \<in> set (playlists (snd (createOrUpdateVideoPlaylist env po byAccount to s)))"
      using upsert_row(1) [OF u] by (simp add: fin u deleteAllOf_def)
    have f4: "\<forall>r\<in>set (playlists (snd (createOrUpdateVideoPlaylist env po byAccount to s))).
                pa_url (pl_attrs r) = po_id po \<longrightarrow>
                pa_name (pl_attrs r) = po_name po \<and> pa_description (pl_attrs r) = po_content po"
      using upsert_row(3) [OF u] n' by (auto simp: fin deleteAllOf_def)
    from f1 f2 f3 f4 show ?thesis by (intro conjI)
  qed
  from 0 1 2 3 4 5 6 7 8 show ?thesis by (intro conjI impI) simp_all
qed

text \<open>Three items that all resolve and an image download that fails: the thumbnail
  is attempted once, the reconciliation succeeds and the three elements are stored.\<close>

theorem thumbnail_follows_crawled_items_witness:
  "playlistObjectToDBAttributes exPlaylistObject 7 (po_to exPlaylistObject) = Inr exAttributes
   \<and> attributeChannel failingImageEnv exPlaylistObject exAttributes = Inr exAttributes
   \<and> crawlCollectionPage failingImageEnv (po_id exPlaylistObject)
       = Inr [''http://a.org/e/1'', ''http://a.org/e/2'', ''http://a.org/e/3'']
   \<and> mset (mapOrder failingImageEnv
              [''http://a.org/e/1'', ''http://a.org/e/2'', ''http://a.org/e/3''])
       = mset [''http://a.org/e/1'', ''http://a.org/e/2'', ''http://a.org/e/3'']
   \<and> \<not> downloadImage failingImageEnv ''http://a.org/i.png'' ''u1.jpg''
   \<and> thumbnailCalls exStore = []
   \<and> thumbnailCalls (snd (createOrUpdateVideoPlaylist failingImageEnv exPlaylistObject 7
         (po_to exPlaylistObject) exStore)) = [1]
   \<and> fst (createOrUpdateVideoPlaylist failingImageEnv exPlaylistObject 7
         (po_to exPlaylistObject) exStore) = Inr ()
   \<and> map (\<lambda>e. ea_url (el_attrs e))
        (elements (snd (createOrUpdateVideoPlaylist failingImageEnv exPlaylistObject 7
           (po_to exPlaylistObject) exStore)))
       = [''http://a.org/e/1'', ''http://a.org/e/2'', ''http://a.org/e/3'']"
proof -
  let ?urls = "[''http://a.org/e/1'', ''http://a.org/e/2'', ''http://a.org/e/3'']"
  have a: "playlistObjectToDBAttributes exPlaylistObject 7 (po_to exPlaylistObject)
             = Inr exAttributes"
    by (simp add: playlistObjectToDBAttributes_def exPlaylistObject_def exAttributes_def)
  have b: "attributeChannel failingImageEnv exPlaylistObject exAttributes = Inr exAttributes"
    by (simp add: attributeChannel_def exPlaylistObject_def)
  have c: "crawlCollectionPage failingImageEnv (po_id exPlaylistObject) = Inr ?urls"
    by (simp add: failingImageEnv_def exEnv_def exCrawl_def exPlaylistObject_def)
  have d: "\<not> downloadImage failingImageEnv ''http://a.org/i.png'' ''u1.jpg''"
    by (simp add: failingImageEnv_def)
  have u: "upsert failingImageEnv exAttributes exStore
      = (exPlaylist\<lparr>pl_attrs := exAttributes\<rparr>,
         exStore\<lparr>playlists := [exPlaylist\<lparr>pl_attrs := exAttributes\<rparr>]\<rparr>)"
    by (simp add: upsert_def exAttributes_def exStore_def exPlaylist_def)
  have r: "fst (resetVideoPlaylistElements failingImageEnv ?urls
                  (exPlaylist\<lparr>pl_attrs := exAttributes\<rparr>)
                  (exStore\<lparr>playlists := [exPlaylist\<lparr>pl_attrs := exAttributes\<rparr>]\<rparr>)) = Inr ()"
    "map (\<lambda>e. ea_url (el_attrs e))
       (elements (snd (resetVideoPlaylistElements failingImageEnv ?urls
                  (exPlaylist\<lparr>pl_attrs := exAttributes\<rparr>)
                  (exStore\<lparr>playlists := [exPlaylist\<lparr>pl_attrs := exAttributes\<rparr>]\<rparr>)))) = ?urls"
    by (simp_all add: resetVideoPlaylistElements_def transaction_def elementsToCreate_def
        fetchElement_def failingImageEnv_def exEnv_def exRequest_def exElementObject_def
        exVideo_def sameHost_def urlHost_def deleteAllOf_def create_def exStore_def
        exPlaylist_def exElement_def playlistElementObjectToDBAttributes_def)
  have s: "thumbnailCalls exStore = []" "pl_id exPlaylist = 1"
    by (simp_all add: exStore_def exPlaylist_def)
  have m: "mset (mapOrder failingImageEnv ?urls) = mset ?urls"
    by (simp add: failingImageEnv_def exEnv_def)
  let ?run = "createOrUpdateVideoPlaylist failingImageEnv exPlaylistObject 7
                (po_to exPlaylistObject) exStore"
  note t = thumbnail_follows_crawled_items [OF a b c m, of exStore "\<lambda>u n. True"]
  from t have 1: "thumbnailCalls (snd ?run) = [1]"
    by (simp add: u s)
  from t r(1) have 2: "fst ?run = Inr ()"
    by (simp add: u)
  from t have "elements (snd ?run)
      = elements (snd (resetVideoPlaylistElements failingImageEnv ?urls
                  (exPlaylist\<lparr>pl_attrs := exAttributes\<rparr>)
                  (exStore\<lparr>playlists := [exPlaylist\<lparr>pl_attrs := exAttributes\<rparr>]\<rparr>)))"
    by (simp add: u)
  with r(2) have 3: "map (\<lambda>e. ea_url (el_attrs e)) (elements (snd ?run)) = ?urls"
    by simp
  from a b c m d s(1) 1 2 3 show ?thesis
    by (intro conjI)
qed

text \<open>As C8 states it, the thumbnail would be attempted exactly when the new element
  set is non-empty. With three crawled items of which none resolves the reconciliation
  succeeds, the playlist's new element set is empty, and the thumbnail has been
  generated.\<close>

theorem thumbnail_attempted_for_empty_element_set:
  "\<not> (thumbnailCalls (snd (createOrUpdateVideoPlaylist unresolvedEnv exPlaylistObject 7
            (po_to exPlaylistObject) exStore)) \<noteq> thumbnailCalls exStore
        \<longleftrightarrow>
        filter (\<lambda>e. ea_videoPlaylistId (el_attrs e) = pl_id exPlaylist)
          (elements (snd (createOrUpdateVideoPlaylist unresolvedEnv exPlaylistObject 7
             (po_to exPlaylistObject) exStore))) \<noteq> [])"
proof -
  have d: "getOrCreateVideoAndAccountAndChannel unresolvedEnv = (\<lambda>u. Inl ResolutionError)"
    "doRequest unresolvedEnv = exRequest" "crawlCollectionPage unresolvedEnv = exCrawl"
    "getOrCreateActorAndServerAndModel unresolvedEnv = (\<lambda>u. Inr None)"
    "downloadImage unresolvedEnv = (\<lambda>u n. True)"
    "isPlaylistElementObjectValid unresolvedEnv = (\<lambda>eo. True)"
    "checkUrlsSameHost unresolvedEnv = sameHost"
    "mapOrder unresolvedEnv = (\<lambda>urls. urls)"
    by (simp_all add: unresolvedEnv_def exEnv_def)
  have "createOrUpdateVideoPlaylist unresolvedEnv exPlaylistObject 7
          (po_to exPlaylistObject) exStore
      = (Inr (), exStore\<lparr>playlists := [exPlaylist\<lparr>pl_attrs := exAttributes\<rparr>],
                         elements := [],
                         thumbnails := [(''u1.jpg'', ''http://a.org/i.png'')],
                         thumbnailCalls := [1]\<rparr>)"
    by (simp add: d createOrUpdateVideoPlaylist_def playlistObjectToDBAttributes_def
        attributeChannel_def upsert_def thumbnailStep_def generateThumbnailFromUrl_def
        getThumbnailName_def resetVideoPlaylistElements_def transaction_def
        elementsToCreate_def fetchElement_def deleteAllOf_def exRequest_def exCrawl_def
        exElementObject_def exPlaylistObject_def exStore_def exPlaylist_def exElement_def
        exAttributes_def sameHost_def urlHost_def)
  then show ?thesis
    by (simp add: exStore_def)
qed

section \<open>A refresh that fails\<close>

lemma upsert_ids:
  "upsert env a s = (pl, s1) \<Longrightarrow> set (map pl_id (playlists s)) \<subseteq> set (map pl_id (playlists s1))"
proof (cases "find (\<lambda>r. pa_url (pl_attrs r) = pa_url a) (playlists s)")
  case None
  assume "upsert env a s = (pl, s1)"
  with None show ?thesis by (auto simp: upsert_def Let_def)
next
  case (Some r)
  assume "upsert env a s = (pl, s1)"
  with Some have "playlists s1
      = map (\<lambda>x. if pa_url (pl_attrs x) = pa_url a then x\<lparr>pl_attrs := a\<rparr> else x) (playlists s)"
    by (auto simp: upsert_def)
  then have "map pl_id (playlists s1) = map pl_id (playlists s)"
    by (simp add: comp_def if_distrib)
  then show ?thesis by simp
qed

lemma createOrUpdate_error:
  assumes "createOrUpdateVideoPlaylist env po byAccount to s = (Inl e, s1)"
  shows "elements s1 = elements s"
    and "set (map pl_id (playlists s)) \<subseteq> set (map pl_id (playlists s1))"
proof -
  have "elements s1 = elements s
      \<and> set (map pl_id (playlists s)) \<subseteq> set (map pl_id (playlists s1))"
  proof (cases "playlistObjectToDBAttributes po byAccount to")
    case (Inl x)
    with assms show ?thesis by (simp add: createOrUpdateVideoPlaylist_def)
  next
    case a: (Inr attrs0)
    show ?thesis
    proof (cases "attributeChannel env po attrs0")
      case (Inl x)
      with a assms show ?thesis by (simp add: createOrUpdateVideoPlaylist_def)
    next
      case b: (Inr attrs)
      obtain pl sa where u: "upsert env attrs s = (pl, sa)"
        by (cases "upsert env attrs s")
      show ?thesis
      proof (cases "crawlCollectionPage env (po_id po)")
        case (Inl x)
        with a b u assms have "s1 = sa" by (simp add: createOrUpdateVideoPlaylist_def)
        with upsert_frame [OF u] upsert_ids [OF u] show ?thesis by simp
      next
        case (Inr items)
        with a b u assms
        have "resetVideoPlaylistElements env items pl (thumbnailStep env pl po items sa)
            = (Inl e, s1)"
          by (simp add: createOrUpdateVideoPlaylist_def)
        from reset_failure [OF this] have "s1 = thumbnailStep env pl po items sa" .
        with upsert_frame [OF u] upsert_ids [OF u] show ?thesis
          by (simp add: thumbnailStep_frame)
      qed
    qed
  qed
  then show "elements s1 = elements s"
    and "set (map pl_id (playlists s)) \<subseteq> set (map pl_id (playlists s1))"
    by simp_all
qed

lemma refreshAttempt_error:
  assumes "refreshAttempt env p s = (Inl e, s1)"
  shows "elements s1 = elements s"
    and "set (map pl_id (playlists s)) \<subseteq> set (map pl_id (playlists s1))"
proof -
  have "elements s1 = elements s
      \<and> set (map pl_id (playlists s)) \<subseteq> set (map pl_id (playlists s1))"
  proof (cases "fetchRemoteVideoPlaylist env (pa_url (pl_attrs p))")
    case (Inl x)
    with assms show ?thesis by (simp add: refreshAttempt_def)
  next
    case (Inr r)
    obtain code obj where r: "r = (code, obj)" by (cases r)
    show ?thesis
    proof (cases "code = 404 \<or> obj = None")
      case True
      with Inr r assms show ?thesis
        by (auto simp: refreshAttempt_def setAsRefreshed_def split: if_splits)
    next
      case False
      then obtain po where o: "obj = Some po" and c: "code \<noteq> 404" by auto
      obtain x s' where k: "createOrUpdateVideoPlaylist env po
          (pa_ownerAccountId (pl_attrs p)) (po_to po) s = (x, s')"
        by (cases "createOrUpdateVideoPlaylist env po
          (pa_ownerAccountId (pl_attrs p)) (po_to po) s")
      with Inr r o c assms have "x = Inl e" "s' = s1"
        by (auto simp: refreshAttempt_def split: sum.splits)
      with k createOrUpdate_error [of env po "pa_ownerAccountId (pl_attrs p)" "po_to po" s e s1]
      show ?thesis by simp
    qed
  qed
  then show "elements s1 = elements s"
    and "set (map pl_id (playlists s)) \<subseteq> set (map pl_id (playlists s1))"
    by simp_all
qed

lemma setAsRefreshed_frame:
  "elements (snd (setAsRefreshed env p s)) = elements s
   \<and> map pl_id (playlists (snd (setAsRefreshed env p s))) = map pl_id (playlists s)
   \<and> (\<forall>r\<in>set (playlists (snd (setAsRefreshed env p s))).
         pl_id r = pl_id p \<longrightarrow> pl_lastRefreshedAt r = now env)"
proof -
  have "map pl_id (map (\<lambda>r. if pl_id r = pl_id p then r\<lparr>pl_lastRefreshedAt := now env\<rparr> else r)
          (playlists s)) = map pl_id (playlists s)"
    by (simp add: comp_def if_distrib)
  then show ?thesis
    by (auto simp: setAsRefreshed_def)
qed

lemma stamp_invalid:
  assumes "isOutdated env p" and "code \<noteq> 404"
    and "fetchRemoteVideoPlaylist env (pa_url (pl_attrs p)) = Inr (code, None)"
  shows "refreshVideoPlaylistIfNeeded env p s
           = (Some (p\<lparr>pl_lastRefreshedAt := now env\<rparr>),
              s\<lparr>playlists :=
                  map (\<lambda>r. if pl_id r = pl_id p then r\<lparr>pl_lastRefreshedAt := now env\<rparr>
                            else r) (playlists s)\<rparr>)"
  using assms
  by (simp add: refreshVideoPlaylistIfNeeded_def refreshAttempt_def setAsRefreshed_def)

lemma stamp_fetch:
  assumes "isOutdated env p"
    and "fetchRemoteVideoPlaylist env (pa_url (pl_attrs p)) = Inl e"
  shows "refreshVideoPlaylistIfNeeded env p s
           = (Some (p\<lparr>pl_lastRefreshedAt := now env\<rparr>),
              s\<lparr>playlists :=
                  map (\<lambda>r. if pl_id r = pl_id p then r\<lparr>pl_lastRefreshedAt := now env\<rparr>
                            else r) (playlists s)\<rparr>)"
  using assms
  by (simp add: refreshVideoPlaylistIfNeeded_def refreshAttempt_def setAsRefreshed_def)

lemma stamp_before_upsert:
  assumes "isOutdated env p" and "code \<noteq> 404"
    and "fetchRemoteVideoPlaylist env (pa_url (pl_attrs p)) = Inr (code, Some po)"
    and "playlistObjectToDBAttributes po (pa_ownerAccountId (pl_attrs p)) (po_to po) = Inl e
         \<or> (\<exists>attrs0. playlistObjectToDBAttributes po
                 (pa_ownerAccountId (pl_attrs p)) (po_to po) = Inr attrs0
               \<and> attributeChannel env po attrs0 = Inl e)"
  shows "refreshVideoPlaylistIfNeeded env p s
           = (Some (p\<lparr>pl_lastRefreshedAt := now env\<rparr>),
              s\<lparr>playlists :=
                  map (\<lambda>r. if pl_id r = pl_id p then r\<lparr>pl_lastRefreshedAt := now env\<rparr>
                            else r) (playlists s)\<rparr>)"
proof -
  from assms(4) have "createOrUpdateVideoPlaylist env po
      (pa_ownerAccountId (pl_attrs p)) (po_to po) s = (Inl e, s)"
    by (auto simp: createOrUpdateVideoPlaylist_def)
  with assms(1-3) show ?thesis
    by (simp add: refreshVideoPlaylistIfNeeded_def refreshAttempt_def setAsRefreshed_def)
qed

text \<open>
  Claim C4, amended. For a stale playlist: when the remote answers with a status other
  than 404 and a body that is no valid playlist object of its host, when the fetch
  itself throws, and when the attributes or the attributed actor of a valid manifest
  throw, the refresh changes nothing but the time of the last refresh, which becomes
  the current time on the returned playlist and on its row: elements, names and
  descriptions are as before and no row is deleted. Whenever anything in the pipeline
  throws, the playlist is returned with the current time as the time of its last
  refresh, the stored elements are as before, no playlist row is deleted, and the row
  of the playlist carries the current time.
\<close>

theorem refresh_failure_frame:
  assumes "isOutdated env p"
  shows "((\<exists>code. code \<noteq> 404
              \<and> fetchRemoteVideoPlaylist env (pa_url (pl_attrs p)) = Inr (code, None))
          \<or> (\<exists>e. fetchRemoteVideoPlaylist env (pa_url (pl_attrs p)) = Inl e)
          \<or> (\<exists>code po e. code \<noteq> 404
                \<and> fetchRemoteVideoPlaylist env (pa_url (pl_attrs p)) = Inr (code, Some po)
                \<and> (playlistObjectToDBAttributes po (pa_ownerAccountId (pl_attrs p)) (po_to po)
                      = Inl e
                    \<or> (\<exists>attrs0. playlistObjectToDBAttributes po
                            (pa_ownerAccountId (pl_attrs p)) (po_to po) = Inr attrs0
                          \<and> attributeChannel env po attrs0 = Inl e)))
          \<longrightarrow> refreshVideoPlaylistIfNeeded env p s
                = (Some (p\<lparr>pl_lastRefreshedAt := now env\<rparr>),
                   s\<lparr>playlists :=
                       map (\<lambda>r. if pl_id r = pl_id p then r\<lparr>pl_lastRefreshedAt := now env\<rparr>
                                 else r) (playlists s)\<rparr>))
    \<and> ((\<exists>e. fst (refreshAttempt env p s) = Inl e)
          \<longrightarrow> fst (refreshVideoPlaylistIfNeeded env p s)
                = Some (p\<lparr>pl_lastRefreshedAt := now env\<rparr>)
              \<and> elements (snd (refreshVideoPlaylistIfNeeded env p s)) = elements s
              \<and> set (map pl_id (playlists s))
                  \<subseteq> set (map pl_id (playlists (snd (refreshVideoPlaylistIfNeeded env p s))))
              \<and> (\<forall>r\<in>set (playlists (snd (refreshVideoPlaylistIfNeeded env p s))).
                    pl_id r = pl_id p \<longrightarrow> pl_lastRefreshedAt r = now env))"
proof (intro conjI impI)
  assume h: "(\<exists>code. code \<noteq> 404
              \<and> fetchRemoteVideoPlaylist env (pa_url (pl_attrs p)) = Inr (code, None))
          \<or> (\<exists>e. fetchRemoteVideoPlaylist env (pa_url (pl_attrs p)) = Inl e)
          \<or> (\<exists>code po e. code \<noteq> 404
                \<and> fetchRemoteVideoPlaylist env (pa_url (pl_attrs p)) = Inr (code, Some po)
                \<and> (playlistObjectToDBAttributes po (pa_ownerAccountId (pl_attrs p)) (po_to po)
                      = Inl e
                    \<or> (\<exists>attrs0. playlistObjectToDBAttributes po
                            (pa_ownerAccountId (pl_attrs p)) (po_to po) = Inr attrs0
                          \<and> attributeChannel env po attrs0 = Inl e)))"
  show "refreshVideoPlaylistIfNeeded env p s
                = (Some (p\<lparr>pl_lastRefreshedAt := now env\<rparr>),
                   s\<lparr>playlists :=
                       map (\<lambda>r. if pl_id r = pl_id p then r\<lparr>pl_lastRefreshedAt := now env\<rparr>
                                 else r) (playlists s)\<rparr>)"
    using h
  proof (elim disjE)
    assume "\<exists>code. code \<noteq> 404
              \<and> fetchRemoteVideoPlaylist env (pa_url (pl_attrs p)) = Inr (code, None)"
    then obtain code where "code \<noteq> 404"
      "fetchRemoteVideoPlaylist env (pa_url (pl_attrs p)) = Inr (code, None)"
      by blast
    then show ?thesis by (rule stamp_invalid [OF assms])
  next
    assume "\<exists>e. fetchRemoteVideoPlaylist env (pa_url (pl_attrs p)) = Inl e"
    then obtain e where "fetchRemoteVideoPlaylist env (pa_url (pl_attrs p)) = Inl e"
      by blast
    then show ?thesis by (rule stamp_fetch [OF assms])
  next
    assume "\<exists>code po e. code \<noteq> 404
                \<and> fetchRemoteVideoPlaylist env (pa_url (pl_attrs p)) = Inr (code, Some po)
                \<and> (playlistObjectToDBAttributes po (pa_ownerAccountId (pl_attrs p)) (po_to po)
                      = Inl e
                    \<or> (\<exists>attrs0. playlistObjectToDBAttributes po
                            (pa_ownerAccountId (pl_attrs p)) (po_to po) = Inr attrs0
                          \<and> attributeChannel env po attrs0 = Inl e))"
    then obtain code po e where "code \<noteq> 404"
      "fetchRemoteVideoPlaylist env (pa_url (pl_attrs p)) = Inr (code, Some po)"
      "playlistObjectToDBAttributes po (pa_ownerAccountId (pl_attrs p)) (po_to po) = Inl e
         \<or> (\<exists>attrs0. playlistObjectToDBAttributes po
                 (pa_ownerAccountId (pl_attrs p)) (po_to po) = Inr attrs0
               \<and> attributeChannel env po attrs0 = Inl e)"
      by blast
    then show ?thesis by (rule stamp_before_upsert [OF assms])
  qed
next
  assume "\<exists>e. fst (refreshAttempt env p s) = Inl e"
  then obtain e s1 where a: "refreshAttempt env p s = (Inl e, s1)"
    by (cases "refreshAttempt env p s") auto
  with assms have r: "refreshVideoPlaylistIfNeeded env p s
      = (Some (p\<lparr>pl_lastRefreshedAt := now env\<rparr>), snd (setAsRefreshed env p s1))"
    by (simp add: refreshVideoPlaylistIfNeeded_def setAsRefreshed_def)
  show "fst (refreshVideoPlaylistIfNeeded env p s) = Some (p\<lparr>pl_lastRefreshedAt := now env\<rparr>)"
    by (simp add: r)
  show "elements (snd (refreshVideoPlaylistIfNeeded env p s)) = elements s"
    using refreshAttempt_error(1) [OF a] setAsRefreshed_frame [of env p s1] by (simp add: r)
  show "set (map pl_id (playlists s))
          \<subseteq> set (map pl_id (playlists (snd (refreshVideoPlaylistIfNeeded env p s))))"
    using refreshAttempt_error(2) [OF a] setAsRefreshed_frame [of env p s1] by (simp add: r)
  show "\<forall>r\<in>set (playlists (snd (refreshVideoPlaylistIfNeeded env p s))).
          pl_id r = pl_id p \<longrightarrow> pl_lastRefreshedAt r = now env"
    using setAsRefreshed_frame [of env p s1] by (simp add: r)
qed

lemmas refresh_defs =
  refreshVideoPlaylistIfNeeded_def refreshAttempt_def fetchRemoteVideoPlaylist_def
  setAsRefreshed_def isOutdated_def destroy_def

text \<open>A body that is no playlist object leaves the example store as it is but for the
  time of the refresh; when the table rejects the new elements, the old element stays
  and the playlist is returned refreshed.\<close>

theorem refresh_failure_frame_witness:
  "isOutdated garbageEnv exPlaylist
   \<and> fetchRemoteVideoPlaylist garbageEnv (pa_url (pl_attrs exPlaylist)) = Inr (200, None)
   \<and> refreshVideoPlaylistIfNeeded garbageEnv exPlaylist exStore
       = (Some (exPlaylist\<lparr>pl_lastRefreshedAt := 1000\<rparr>),
          exStore\<lparr>playlists := [exPlaylist\<lparr>pl_lastRefreshedAt := 1000\<rparr>]\<rparr>)
   \<and> isOutdated rejectingEnv exPlaylist
   \<and> fst (refreshAttempt rejectingEnv exPlaylist exStore) = Inl DatabaseError
   \<and> fst (refreshVideoPlaylistIfNeeded rejectingEnv exPlaylist exStore)
       = Some (exPlaylist\<lparr>pl_lastRefreshedAt := 1000\<rparr>)
   \<and> elements (snd (refreshVideoPlaylistIfNeeded rejectingEnv exPlaylist exStore))
       = [exElement]"
proof -
  have o1: "isOutdated garbageEnv exPlaylist"
    by (simp add: isOutdated_def garbageEnv_def exEnv_def exPlaylist_def)
  have f1: "fetchRemoteVideoPlaylist garbageEnv (pa_url (pl_attrs exPlaylist)) = Inr (200, None)"
    by (simp add: fetchRemoteVideoPlaylist_def garbageEnv_def)
  have n1: "now garbageEnv = 1000" "playlists exStore = [exPlaylist]"
    by (simp_all add: garbageEnv_def exEnv_def exStore_def)
  have o2: "isOutdated rejectingEnv exPlaylist"
    by (simp add: isOutdated_def rejectingEnv_def exEnv_def exPlaylist_def)
  have f2: "fst (refreshAttempt rejectingEnv exPlaylist exStore) = Inl DatabaseError"
    by (simp add: refresh_defs example_defs rejectingEnv_def)
  have n2: "now rejectingEnv = 1000" "elements exStore = [exElement]"
    by (simp_all add: rejectingEnv_def exEnv_def exStore_def)
  from refresh_failure_frame [OF o1, of exStore] f1 n1 o1
  have 1: "refreshVideoPlaylistIfNeeded garbageEnv exPlaylist exStore
       = (Some (exPlaylist\<lparr>pl_lastRefreshedAt := 1000\<rparr>),
          exStore\<lparr>playlists := [exPlaylist\<lparr>pl_lastRefreshedAt := 1000\<rparr>]\<rparr>)"
    by simp
  from refresh_failure_frame [OF o2, of exStore] f2 n2
  have 2: "fst (refreshVideoPlaylistIfNeeded rejectingEnv exPlaylist exStore)
       = Some (exPlaylist\<lparr>pl_lastRefreshedAt := 1000\<rparr>)
   \<and> elements (snd (refreshVideoPlaylistIfNeeded rejectingEnv exPlaylist exStore))
       = [exElement]"
    by simp
  from o1 f1 1 o2 f2 2 show ?thesis by (intro conjI) simp_all
qed

text \<open>As C4 states it, an exception anywhere in the pipeline would leave name and
  description unchanged. When the element table rejects the insertions, the
  transaction throws after the playlist has been upserted: the refresh catches the
  error and the stored name and description are the manifest's.\<close>

theorem exception_after_upsert_changes_name:
  "isOutdated rejectingEnv exPlaylist
   \<and> fst (refreshAttempt rejectingEnv exPlaylist exStore) = Inl DatabaseError
   \<and> map (\<lambda>r. (pa_name (pl_attrs r), pa_description (pl_attrs r))) (playlists exStore)
       = [(''old'', ''old text'')]
   \<and> map (\<lambda>r. (pa_name (pl_attrs r), pa_description (pl_attrs r)))
        (playlists (snd (refreshVideoPlaylistIfNeeded rejectingEnv exPlaylist exStore)))
       = [(''new'', ''new text'')]"
  by (simp add: refresh_defs example_defs rejectingEnv_def)

section \<open>Two defects\<close>

text \<open>
  Claim C2 at a concrete input: the example playlist was last refreshed at time 0, the
  time is 1000 and the interval 100, the remote serves a valid manifest of three
  elements that all resolve. The refresh reconciles (new name, three elements) and
  returns the playlist object it was given; neither the returned object nor the stored
  row has a new time of last refresh, and the stored row is still stale.
\<close>

theorem valid_refresh_leaves_playlist_stale:
  "isOutdated exEnv exPlaylist
   \<and> fetchRemoteVideoPlaylist exEnv (pa_url (pl_attrs exPlaylist))
       = Inr (200, Some exPlaylistObject)
   \<and> now exEnv = 1000
   \<and> fst (refreshVideoPlaylistIfNeeded exEnv exPlaylist exStore) = Some exPlaylist
   \<and> pl_lastRefreshedAt exPlaylist = 0
   \<and> playlists (snd (refreshVideoPlaylistIfNeeded exEnv exPlaylist exStore))
       = [\<lparr>pl_id = 1, pl_attrs = exAttributes, pl_lastRefreshedAt = 0\<rparr>]
   \<and> map (\<lambda>e. ea_url (el_attrs e))
        (elements (snd (refreshVideoPlaylistIfNeeded exEnv exPlaylist exStore)))
       = [''http://a.org/e/1'', ''http://a.org/e/2'', ''http://a.org/e/3'']
   \<and> isOutdated exEnv \<lparr>pl_id = 1, pl_attrs = exAttributes, pl_lastRefreshedAt = 0\<rparr>"
  by (simp add: refresh_defs example_defs exAttributes_def)

text \<open>
  Claim C5 at a concrete input: the host b.org serves, at its own url, a valid playlist
  object whose declared identifier belongs to a.org. The origin check fails for the
  pair, and \<^verbatim>\<open>fetchRemoteVideoPlaylist\<close> gives no playlist object for it; but
  \<^verbatim>\<open>createAccountPlaylists\<close> does not make the check: it upserts the object over
  the stored playlist of a.org and replaces its elements.
\<close>

theorem account_playlist_trusted_across_hosts:
  "doRequest spoofEnv ''http://b.org/p/1'' = Inr (200, PlaylistBody exPlaylistObject)
   \<and> \<not> checkUrlsSameHost spoofEnv (po_id exPlaylistObject) ''http://b.org/p/1''
   \<and> fetchRemoteVideoPlaylist spoofEnv ''http://b.org/p/1'' = Inr (200, None)
   \<and> playlists exStore = [exPlaylist] \<and> elements exStore = [exElement]
   \<and> createAccountPlaylists spoofEnv [''http://b.org/p/1''] 7 exStore
       = exStore\<lparr>playlists := [exPlaylist\<lparr>pl_attrs := exAttributes\<rparr>], elements := []\<rparr>"
  by (simp add: refresh_defs example_defs exAttributes_def spoofEnv_def
      createAccountPlaylists_def createAccountPlaylist_def doesPlaylistExist_def)

text \<open>The playlist that the refresh returns was last refreshed at 0, not at the
  current time.\<close>

theorem valid_refresh_leaves_playlist_stale_witness:
  "map_option pl_lastRefreshedAt (fst (refreshVideoPlaylistIfNeeded exEnv exPlaylist exStore))
     = Some 0
   \<and> map pl_lastRefreshedAt
        (playlists (snd (refreshVideoPlaylistIfNeeded exEnv exPlaylist exStore))) = [0]
   \<and> now exEnv = 1000"
  using valid_refresh_leaves_playlist_stale by simp

text \<open>The stored playlist of a.org has the name that b.org served.\<close>

theorem account_playlist_trusted_across_hosts_witness:
  "map (\<lambda>r. (pa_url (pl_attrs r), pa_name (pl_attrs r)))
     (playlists (createAccountPlaylists spoofEnv [''http://b.org/p/1''] 7 exStore))
     = [(''http://a.org/p/1'', ''new'')]
   \<and> map (\<lambda>r. (pa_url (pl_attrs r), pa_name (pl_attrs r))) (playlists exStore)
     = [(''http://a.org/p/1'', ''old'')]"
  using account_playlist_trusted_across_hosts
  by (simp add: exAttributes_def exPlaylist_def)

end
